theory Spec2Isabelle
  imports Main
begin

section \<open>Strings and the JavaScript built-ins the bootstrap calls\<close>

text \<open>
  A JavaScript string is modelled by the bytes of its UTF-8 encoding (a HOL \<open>string\<close>).
  All patterns the program searches for are ASCII, so searching bytes and searching
  UTF-16 code units agree; strings with lone surrogates (on which
  \<open>encodeURIComponent\<close> throws) have no UTF-8 encoding and are outside the model.
\<close>

definition startsWith :: "string \<Rightarrow> string \<Rightarrow> bool" where
  "startsWith s p = (take (length p) s = p)"

definition endsWith :: "string \<Rightarrow> string \<Rightarrow> bool" where
  "endsWith s p = (length p \<le> length s \<and> drop (length s - length p) s = p)"

text \<open>\<open>s.replace(pat, rep)\<close> with a string pattern: the first occurrence only.\<close>

fun js_replace :: "string \<Rightarrow> string \<Rightarrow> string \<Rightarrow> string" where
  "js_replace pat rep [] = (if pat = [] then rep else [])"
| "js_replace pat rep (c # cs) =
     (if startsWith (c # cs) pat then rep @ drop (length pat) (c # cs)
      else c # js_replace pat rep cs)"

text \<open>\<open>s.split(sep)\<close> for a one-character separator; the result is never empty.\<close>

fun js_split :: "char \<Rightarrow> string \<Rightarrow> string list" where
  "js_split sep [] = [[]]"
| "js_split sep (c # cs) =
     (let r = js_split sep cs
      in if c = sep then [] # r else (c # hd r) # tl r)"

text \<open>\<open>xs.join(sep)\<close> on strings.\<close>

fun js_join :: "string \<Rightarrow> string list \<Rightarrow> string" where
  "js_join sep [] = []"
| "js_join sep [x] = x"
| "js_join sep (x # y # ys) = x @ sep @ js_join sep (y # ys)"

text \<open>\<open>name.replace(/\//g, '_')\<close>: every slash becomes an underscore.\<close>

definition replace_slashes :: "string \<Rightarrow> string" where
  "replace_slashes name = map (\<lambda>c. if c = CHR ''/'' then CHR ''_'' else c) name"

text \<open>
  \<open>encodeURIComponent\<close>: letters, digits and \<open>- _ . ! ~ * ' ( )\<close> stay; every other
  byte of the UTF-8 encoding becomes \<open>%XX\<close> in upper-case hexadecimal.
\<close>

definition uri_unreserved :: "char \<Rightarrow> bool" where
  "uri_unreserved c =
     (c \<in> set (''ABCDEFGHIJKLMNOPQRSTUVWXYZabcdefghijklmnopqrstuvwxyz0123456789-_.!~*()''
               @ [CHR 0x27]))"

definition hex_digit :: "nat \<Rightarrow> char" where
  "hex_digit n = ''0123456789ABCDEF'' ! (n mod 16)"

definition percent_encode :: "char \<Rightarrow> string" where
  "percent_encode c =
     (if uri_unreserved c then [c]
      else [CHR ''%'', hex_digit (of_char c div 16), hex_digit (of_char c mod 16)])"

definition encodeURIComponent :: "string \<Rightarrow> string" where
  "encodeURIComponent s = concat (map percent_encode s)"

text \<open>
  ASCII white space of the DOM standard (tab, line feed, form feed, carriage return,
  space), and its operation \<open>strip and collapse ASCII whitespace\<close>: the runs of other
  characters, joined by single spaces.
\<close>

definition ascii_whitespace :: "char \<Rightarrow> bool" where
  "ascii_whitespace c = (c \<in> {CHR 0x09, CHR 0x0A, CHR 0x0C, CHR 0x0D, CHR 0x20})"

fun split_whitespace :: "string \<Rightarrow> string list" where
  "split_whitespace [] = [[]]"
| "split_whitespace (c # cs) =
     (let r = split_whitespace cs
      in if ascii_whitespace c then [] # r else (c # hd r) # tl r)"

definition strip_and_collapse :: "string \<Rightarrow> string" where
  "strip_and_collapse s = js_join '' '' (filter (\<lambda>w. w \<noteq> []) (split_whitespace s))"

text \<open>Template-literal rendering of a natural number: its decimal digits.\<close>

fun string_of_nat :: "nat \<Rightarrow> string" where
  "string_of_nat n =
     (if n < 10 then [''0123456789'' ! n]
      else string_of_nat (n div 10) @ [''0123456789'' ! (n mod 10)])"

declare string_of_nat.simps [simp del]

text \<open>
  \<open>Number(s)\<close>. Manifest numbers are natural numbers, so a result is either a natural
  number or a value that is strictly equal to none of them (\<open>NaN\<close>, a negative, a
  fraction, an infinity), all represented by \<open>NotANat\<close>. The empty string converts to
  \<open>0\<close> and a string of decimal digits to its value (exactly, below \<open>2 ^ 53\<close>). The
  conversion of every other string (surrounding white space, signs, fractions,
  exponents, radix prefixes) is left to the environment as the parameter \<open>other\<close>.
\<close>

datatype js_number = Num nat | NotANat

definition is_digit :: "char \<Rightarrow> bool" where
  "is_digit c = (c \<in> set ''0123456789'')"

definition digit_value :: "char \<Rightarrow> nat" where
  "digit_value c = of_char c - 48"

definition decimal_value :: "string \<Rightarrow> nat" where
  "decimal_value s = foldl (\<lambda>acc c. 10 * acc + digit_value c) 0 s"

definition Number_js :: "(string \<Rightarrow> js_number) \<Rightarrow> string \<Rightarrow> js_number" where
  "Number_js other s =
     (if list_all is_digit s then Num (decimal_value s) else other s)"

section \<open>Modules, imports and the module resolver\<close>

text \<open>
  A thrown or rejected \<open>Error\<close>, with the message \<open>(error as Error).message\<close> reads.
\<close>

datatype js_error = Error string

fun message :: "js_error \<Rightarrow> string" where
  "message (Error m) = m"

text \<open>
  Function values: a component of an exercise file (named), the module-level
  \<open>DO_NOT_RENDER\<close>, and the fallback \<open>() => <div>{error.message}</div>\<close>.
  An exported value is a function, a string, or something else; \<open>None\<close> stands for
  \<open>undefined\<close> and \<open>null\<close>.
\<close>

datatype component = Component string | DO_NOT_RENDER | ErrorDiv string

datatype js_value = Fn component | Str string | Obj

record module =
  App :: "js_value option"
  default_export :: "js_value option"

text \<open>
  How the promise of a dynamic import settles. When it settles is decided by the
  environment (the event \<open>ModuleSettles\<close> below); a promise that never settles is an
  event that never happens.
\<close>

datatype 'a settled = Fulfilled 'a | Rejected js_error

type_synonym DynamicImportFn = "module settled"

type_synonym Imports = "string \<Rightarrow> DynamicImportFn option"

text \<open>
  The two functions \<open>moduleWithDefaultExport\<close> can return: the import function itself
  (\<open>importFn as DefaultDynamicImportFn\<close>) or the closure \<open>importJS\<close> over \<open>filePath\<close>
  and \<open>importFn\<close>.
\<close>

datatype DefaultDynamicImportFn =
    RawImport DynamicImportFn
  | ImportJS string DynamicImportFn

definition moduleWithDefaultExport :: "Imports \<Rightarrow> string \<Rightarrow> js_error + DefaultDynamicImportFn" where
  "moduleWithDefaultExport imports filePath =
     (case imports filePath of
        None \<Rightarrow> Inl (Error ([CHR 0x27] @ filePath @ [CHR 0x27] @ '' does not exist in imports.''))
      | Some importFn \<Rightarrow>
          if endsWith filePath ''html'' then Inr (RawImport importFn)
          else Inr (ImportJS filePath importFn))"

text \<open>What the callbacks of \<open>importJS\<close> do besides returning a module.\<close>

datatype loader_effect =
    TargetBlankifyInstructionLinks
  | ConsoleErrorImporting string js_error

text \<open>The regular expression \<open>/\.mdx?$/\<close>.\<close>

definition matches_mdx :: "string \<Rightarrow> bool" where
  "matches_mdx filePath = (endsWith filePath ''.md'' \<or> endsWith filePath ''.mdx'')"

text \<open>\<open>module.App ?? module.default ?? DO_NOT_RENDER\<close>.\<close>

definition normalized_export :: "module \<Rightarrow> js_value" where
  "normalized_export m =
     (case App m of
        Some a \<Rightarrow> a
      | None \<Rightarrow> (case default_export m of Some d \<Rightarrow> d | None \<Rightarrow> Fn DO_NOT_RENDER))"

text \<open>
  Calling the returned function: the effects of its callbacks and how the promise it
  returns settles, given how the underlying import settles.
\<close>

fun invoke :: "DefaultDynamicImportFn \<Rightarrow> loader_effect list \<times> module settled" where
  "invoke (RawImport importFn) = ([], importFn)"
| "invoke (ImportJS filePath importFn) =
     (case importFn of
        Fulfilled m \<Rightarrow>
          (if matches_mdx filePath then [TargetBlankifyInstructionLinks] else [],
           Fulfilled \<lparr>App = None, default_export = Some (normalized_export m)\<rparr>)
      | Rejected error \<Rightarrow>
          ([ConsoleErrorImporting filePath error],
           Fulfilled \<lparr>App = None, default_export = Some (Fn (ErrorDiv (message error)))\<rparr>))"

section \<open>The manifest and the lazy component registry\<close>

text \<open>
  Modelled from the spec: the type \<open>FileInfo\<close> is declared in \<open>./types\<close>, which is not
  among the sources. The spec gives it a file extension, a file path, an optional
  numeric index, an optional title and filename, and a type discriminator; the code
  reads exactly these fields. \<open>None\<close> is an absent (\<open>undefined\<close>) field.
\<close>

record FileInfo =
  ext :: string
  filePath :: string
  number :: "nat option"
  title :: "string option"
  filename :: "string option"
  type :: string

definition componentExtensions :: "string list" where
  "componentExtensions = [''.js'', ''.md'', ''.mdx'', ''.tsx'', ''.ts'']"

text \<open>
  \<open>React.lazy(f)\<close> wraps the loader without calling it. The registry is an object whose
  properties are written in manifest order: an association list, where writing an
  existing key replaces its value in place.
\<close>

datatype lazy_component = React_lazy DefaultDynamicImportFn

type_synonym LazyComponents = "(string \<times> lazy_component) list"

definition set_property :: "string \<Rightarrow> 'v \<Rightarrow> (string \<times> 'v) list \<Rightarrow> (string \<times> 'v) list" where
  "set_property k v obj =
     (if k \<in> fst ` set obj then map (\<lambda>(k', v'). if k' = k then (k', v) else (k', v')) obj
      else obj @ [(k, v)])"

text \<open>
  The registration loop of \<open>makeKCDWorkshopApp\<close>. A missing import makes
  \<open>moduleWithDefaultExport\<close> throw, which ends the start-up.
\<close>

fun register_lazyComponents ::
  "Imports \<Rightarrow> FileInfo list \<Rightarrow> LazyComponents \<Rightarrow> js_error + LazyComponents" where
  "register_lazyComponents imports [] lazyComponents = Inr lazyComponents"
| "register_lazyComponents imports (info # rest) lazyComponents =
     (if ext info \<in> set componentExtensions then
        (case moduleWithDefaultExport imports (filePath info) of
           Inl err \<Rightarrow> Inl err
         | Inr loader \<Rightarrow>
             register_lazyComponents imports rest
               (set_property (filePath info) (React_lazy loader) lazyComponents))
      else register_lazyComponents imports rest lazyComponents)"

section \<open>Documents\<close>

record script_element =
  attributes :: "(string \<times> string) list"
  innerHTML :: string

definition hasAttribute :: "script_element \<Rightarrow> string \<Rightarrow> bool" where
  "hasAttribute el name = (name \<in> fst ` set (attributes el))"

text \<open>
  The content of a body: markup (of the page, or parsed from an exercise file) that has
  or has not an element with the id \<open>root\<close>, or the placeholder the handler writes for
  an unknown isolated path, which has none.
\<close>

datatype body_content = Content bool | SorryNothingHere

text \<open>
  \<open>title_text\<close> is the text of the \<open>title\<close> element: assigning to \<open>document.title\<close>
  replaces it, and reading \<open>document.title\<close> gives it with white space stripped and
  collapsed.
\<close>

record document_element =
  title_text :: string
  body_classList :: "string list"
  body_innerHTML :: body_content
  script_elements :: "script_element list"

definition document_title :: "document_element \<Rightarrow> string" where
  "document_title d = strip_and_collapse (title_text d)"

fun root_present :: "body_content \<Rightarrow> bool" where
  "root_present (Content r) = r"
| "root_present SorryNothingHere = False"

text \<open>
  \<open>DOMTokenList\<close>: \<open>contains\<close> never throws; \<open>add\<close> throws on the empty token and on a
  token with ASCII white space; \<open>remove\<close> (called only after \<open>contains\<close> said yes)
  removes the token.
\<close>

datatype dom_exception = SyntaxError | InvalidCharacterError

definition classList_contains :: "string list \<Rightarrow> string \<Rightarrow> bool" where
  "classList_contains cl token = (token \<in> set cl)"

definition classList_remove :: "string \<Rightarrow> string list \<Rightarrow> string list" where
  "classList_remove token cl = removeAll token cl"

definition classList_add :: "string \<Rightarrow> string list \<Rightarrow> dom_exception + string list" where
  "classList_add token cl =
     (if token = [] then Inl SyntaxError
      else if list_ex ascii_whitespace token then Inl InvalidCharacterError
      else Inr (if token \<in> set cl then cl else cl @ [token]))"

section \<open>Replaying the scripts of an isolated HTML file\<close>

text \<open>
  The loop of \<open>renderIsolated\<close> over \<open>document.querySelectorAll('script')\<close>, as a
  coroutine. Scripts are named by their position in that list. The coroutine runs
  until an \<open>await Promise.all(loadingScriptsQueue)\<close> whose promises are not all
  resolved; the load event of a queued script resolves its promise, and the coroutine
  goes on once all are. The trace records what happened, in order: a script element
  was replaced by a fresh copy (which runs an inline script and starts the fetch of an
  external one), a load event fired, the last \<open>await\<close> was passed, and
  \<open>window.Babel.transformScriptTags()\<close> was called.
\<close>

datatype replay_action =
    Replaced nat script_element
  | LoadFired nat
  | AllLoaded
  | TransformScriptTags

record replay =
  scripts :: "script_element list"
  position :: nat
  loadingScriptsQueue :: "nat list"
  loaded :: "nat list"
  trace :: "replay_action list"
  completed :: bool
  window_Babel :: bool

text \<open>
  The fresh element: \<open>setAttribute\<close> for every name of \<open>getAttributeNames()\<close> with the
  value \<open>getAttribute\<close> finds for it, and the same \<open>innerHTML\<close>.
\<close>

definition getAttribute :: "script_element \<Rightarrow> string \<Rightarrow> string option" where
  "getAttribute el name = map_of (attributes el) name"

definition setAttribute :: "string \<Rightarrow> string \<Rightarrow> script_element \<Rightarrow> script_element" where
  "setAttribute name v el =
     el\<lparr>attributes :=
          (if name \<in> fst ` set (attributes el)
           then map (\<lambda>(k, w). if k = name then (k, v) else (k, w)) (attributes el)
           else attributes el @ [(name, v)])\<rparr>"

definition newScript_for :: "script_element \<Rightarrow> script_element" where
  "newScript_for script =
     (foldl (\<lambda>el attrName.
               setAttribute attrName
                 (case getAttribute script attrName of Some v \<Rightarrow> v | None \<Rightarrow> []) el)
            \<lparr>attributes = [], innerHTML = []\<rparr>
            (remdups (map fst (attributes script))))
     \<lparr>innerHTML := innerHTML script\<rparr>"

text \<open>\<open>Promise.all(loadingScriptsQueue)\<close> is resolved.\<close>

definition queue_resolved :: "replay \<Rightarrow> bool" where
  "queue_resolved r = list_all (\<lambda>j. j \<in> set (loaded r)) (loadingScriptsQueue r)"

text \<open>
  One turn of the loop after its \<open>await\<close>: the script is replaced by the fresh element
  and, if it has a \<open>src\<close>, the promise of its load event joins the queue.
\<close>

definition replace_script :: "replay \<Rightarrow> replay" where
  "replace_script r =
     (let script = scripts r ! position r;
          r1 = r\<lparr>trace := trace r @ [Replaced (position r) (newScript_for script)]\<rparr>;
          r2 = (if hasAttribute script ''src''
                then r1\<lparr>loadingScriptsQueue := loadingScriptsQueue r1 @ [position r]\<rparr>
                else r1)
      in r2\<lparr>position := Suc (position r)\<rparr>)"

text \<open>After the loop: the last \<open>await\<close>, then Babel.\<close>

definition finish_replay :: "replay \<Rightarrow> replay" where
  "finish_replay r =
     (if completed r \<or> \<not> queue_resolved r then r
      else r\<lparr>completed := True,
             trace := trace r @ AllLoaded # (if window_Babel r then [TransformScriptTags] else [])\<rparr>)"

function replay_loop :: "replay \<Rightarrow> replay" where
  "replay_loop r =
     (if position r < length (scripts r) then
        (if \<not> hasAttribute (scripts r ! position r) ''src'' \<and> \<not> queue_resolved r then r
         else replay_loop (replace_script r))
      else finish_replay r)"
  by pat_completeness auto
termination
  by (relation "measure (\<lambda>r. length (scripts r) - position r)")
     (auto simp: replace_script_def Let_def)

declare replay_loop.simps [simp del]

definition replay_start :: "bool \<Rightarrow> script_element list \<Rightarrow> replay" where
  "replay_start babel scs =
     replay_loop \<lparr>scripts = scs, position = 0, loadingScriptsQueue = [], loaded = [],
                  trace = [], completed = False, window_Babel = babel\<rparr>"

text \<open>
  The browser fires the load event of script \<open>j\<close>: possible once, and only for a script
  whose fresh element is in the document with its \<open>onload\<close> set.
\<close>

definition load_event :: "nat \<Rightarrow> replay \<Rightarrow> replay" where
  "load_event j r =
     (if j \<in> set (loadingScriptsQueue r) \<and> j \<notin> set (loaded r)
      then replay_loop (r\<lparr>loaded := loaded r @ [j], trace := trace r @ [LoadFired j]\<rparr>)
      else r)"

text \<open>
  The replay of the scripts \<open>scs\<close> after the browser has delivered the load events
  \<open>loads\<close>, in that order.
\<close>

definition replay_after :: "bool \<Rightarrow> script_element list \<Rightarrow> nat list \<Rightarrow> replay" where
  "replay_after babel scs loads = foldl (\<lambda>r j. load_event j r) (replay_start babel scs) loads"

section \<open>The state of the application\<close>

text \<open>
  A location object of the history library. \<open>history.location !== previousLocation\<close>
  compares object identity: \<open>ref\<close> is the identity of the object, and every
  navigation makes a new object.
\<close>

record location =
  ref :: nat
  pathname :: string

definition same_object :: "location \<Rightarrow> location \<Rightarrow> bool" where
  "same_object a b = (ref a = ref b)"

text \<open>
  The arguments of \<open>makeKCDWorkshopApp\<close> read by the code under study, and the
  built-ins left to the environment: \<open>Number\<close> outside decimal numerals,
  \<open>DOMParser.parseFromString\<close>, and whether \<open>window.Babel\<close> is set when a replay ends.
\<close>

record config =
  imports_arg :: Imports
  filesInfo :: "FileInfo list"
  projectTitle :: string
  backend_start :: bool
  Number_other :: "string \<Rightarrow> js_number"
  parseFromString :: "string \<Rightarrow> document_element"
  Babel_loaded :: bool

text \<open>Callbacks waiting in \<open>setTimeout\<close>.\<close>

datatype timer = SetTitle string | BlankifyLinks

text \<open>What a pass of the handler can throw.\<close>

datatype thrown = Thrown js_error | DOMException dom_exception

text \<open>Calls that leave the module, in the order they are made.\<close>

datatype effect =
    ServerStart
  | RenderReactApp
  | RootUnmount component
  | RootRender component
  | Alert
  | ConsoleError string js_error
  | TargetBlankifyCallback
  | UnhandledRejection js_error
  | Uncaught thrown

text \<open>
  \<open>originalDocumentElement\<close> is the element saved when the module is loaded;
  \<open>replacementDocumentElement\<close> is the live \<open>document.documentElement\<close> when an
  isolated HTML file has replaced it. \<open>unmount\<close> is the module-level variable, with the
  component whose root it unmounts. \<open>pending_imports\<close> are the module promises whose
  \<open>then\<close> callback of \<open>renderIsolated\<close> has not run yet.
\<close>

record state =
  history_location :: location
  previousLocation :: location
  previousIsIsolated :: "bool option"
  originalDocumentElement :: document_element
  replacementDocumentElement :: "document_element option"
  unmount :: "component option"
  timers :: "timer list"
  pending_imports :: "DefaultDynamicImportFn list"
  replays :: "replay list"
  effects :: "effect list"

text \<open>\<open>document.documentElement\<close>, and an update of it.\<close>

definition documentElement :: "state \<Rightarrow> document_element" where
  "documentElement s =
     (case replacementDocumentElement s of
        None \<Rightarrow> originalDocumentElement s
      | Some d \<Rightarrow> d)"

definition update_document :: "(document_element \<Rightarrow> document_element) \<Rightarrow> state \<Rightarrow> state" where
  "update_document f s =
     (case replacementDocumentElement s of
        None \<Rightarrow> s\<lparr>originalDocumentElement := f (originalDocumentElement s)\<rparr>
      | Some d \<Rightarrow> s\<lparr>replacementDocumentElement := Some (f d)\<rparr>)"

definition perform :: "effect \<Rightarrow> state \<Rightarrow> state" where
  "perform e s = s\<lparr>effects := effects s @ [e]\<rparr>"

section \<open>Rendering\<close>

definition render :: "component \<Rightarrow> state \<Rightarrow> state" where
  "render ui s =
     (if root_present (body_innerHTML (documentElement s)) then
        (let s1 = (case unmount s of Some mounted \<Rightarrow> perform (RootUnmount mounted) s | None \<Rightarrow> s)
         in (perform (RootRender ui) s1)\<lparr>unmount := Some ui\<rparr>)
      else perform Alert s)"

text \<open>
  \<open>renderReactApp\<close> belongs to \<open>./react-app\<close>, which is not among the sources; its call
  is recorded as an effect.
\<close>

definition renderReact :: "state \<Rightarrow> state" where
  "renderReact s =
     perform RenderReactApp
       (if replacementDocumentElement s \<noteq> None
        then s\<lparr>replacementDocumentElement := None\<rparr> else s)"

text \<open>
  \<open>renderIsolated\<close> calls the loader and registers its callback; nothing else happens
  before the module promise settles.
\<close>

definition renderIsolated :: "DefaultDynamicImportFn \<Rightarrow> state \<Rightarrow> state" where
  "renderIsolated isolatedModuleImport s =
     s\<lparr>pending_imports := pending_imports s @ [isolatedModuleImport]\<rparr>"

text \<open>
  The callback of \<open>renderIsolated\<close>, run when the module promise is fulfilled, up to the
  first \<open>await\<close> of its script loop.
\<close>

definition renderIsolated_then :: "config \<Rightarrow> module \<Rightarrow> state \<Rightarrow> state" where
  "renderIsolated_then cfg m s =
     (if \<not> same_object (history_location s) (previousLocation s) then s
      else
        (case default_export m of
           Some (Fn defaultExport) \<Rightarrow>
             if defaultExport = DO_NOT_RENDER then s else render defaultExport s
         | Some (Str defaultExport) \<Rightarrow>
             (let newDocument = parseFromString cfg defaultExport;
                  s1 = s\<lparr>replacementDocumentElement := Some newDocument\<rparr>
              in s1\<lparr>replays := replays s1 @
                     [replay_start (Babel_loaded cfg) (script_elements newDocument)]\<rparr>)
         | _ \<Rightarrow> s))"

section \<open>The navigation handler\<close>

definition escapeForClassList :: "string \<Rightarrow> string" where
  "escapeForClassList name = encodeURIComponent (replace_slashes name)"

text \<open>\<open>xs.filter(Boolean)\<close> on strings and \<open>null\<close>.\<close>

definition filter_Boolean :: "string option list \<Rightarrow> string list" where
  "filter_Boolean xs = concat (map (\<lambda>x. case x of None \<Rightarrow> [] | Some s \<Rightarrow> if s = [] then [] else [s]) xs)"

text \<open>The title computed by the callback given to \<open>setTimeout\<close>.\<close>

definition number_prefix :: "FileInfo \<Rightarrow> string" where
  "number_prefix info =
     (case number info of
        None \<Rightarrow> []
      | Some n \<Rightarrow> if n = 0 then [] else string_of_nat n @ ''. '')"

text \<open>\<open>info.title || info.filename\<close>, as \<open>join\<close> prints it (\<open>undefined\<close> prints nothing).\<close>

definition display_name :: "FileInfo \<Rightarrow> string" where
  "display_name info =
     (case (case title info of
              None \<Rightarrow> filename info
            | Some t \<Rightarrow> if t = [] then filename info else Some t) of
        None \<Rightarrow> []
      | Some name \<Rightarrow> name)"

definition info_label :: "FileInfo \<Rightarrow> string" where
  "info_label info = number_prefix info @ display_name info"

definition title_for :: "FileInfo option \<Rightarrow> string \<Rightarrow> string" where
  "title_for info project =
     js_join '' | '' (filter_Boolean [map_option info_label info, Some project])"

text \<open>The \<open>info\<close> of a pathname: the two \<open>filesInfo.find\<close> calls.\<close>

definition isolated_filePath :: "string \<Rightarrow> string" where
  "isolated_filePath path = js_replace ''/isolated'' ''src'' path"

definition trailing_number :: "config \<Rightarrow> string \<Rightarrow> js_number" where
  "trailing_number cfg path = Number_js (Number_other cfg) (last (js_split CHR ''/'' path))"

definition is_instruction :: "js_number \<Rightarrow> FileInfo \<Rightarrow> bool" where
  "is_instruction n i = (type i = ''instruction'' \<and> (case number i of None \<Rightarrow> False | Some k \<Rightarrow> Num k = n))"

definition find_info :: "config \<Rightarrow> string \<Rightarrow> FileInfo option" where
  "find_info cfg path =
     (if startsWith path ''/isolated''
      then List.find (\<lambda>i. filePath i = isolated_filePath path) (filesInfo cfg)
      else List.find (is_instruction (trailing_number cfg path)) (filesInfo cfg))"

text \<open>
  \<open>handleLocationChange(location)\<close>: the new state, and the exception when the pass ends
  by one (\<open>classList.add\<close> on an unusable token, or a file of the manifest without
  import). The state keeps what was done before the throw.
\<close>

definition update_classList :: "location \<Rightarrow> state \<Rightarrow> dom_exception option \<times> state" where
  "update_classList location s =
     (let prevClassName = escapeForClassList (pathname (previousLocation s));
          newClassName = escapeForClassList (pathname location);
          s1 = (if classList_contains (body_classList (documentElement s)) prevClassName
                then update_document
                       (\<lambda>d. d\<lparr>body_classList := classList_remove prevClassName (body_classList d)\<rparr>) s
                else s)
      in if \<not> classList_contains (body_classList (documentElement s1)) newClassName
         then (case classList_add newClassName (body_classList (documentElement s1)) of
                 Inl ex \<Rightarrow> (Some ex, s1)
               | Inr cl \<Rightarrow> (None, update_document (\<lambda>d. d\<lparr>body_classList := cl\<rparr>) s1))
         else (None, s1))"

definition handleLocationChange :: "config \<Rightarrow> location \<Rightarrow> state \<Rightarrow> thrown option \<times> state" where
  "handleLocationChange cfg location s =
     (case update_classList location s of
        (Some ex, s1) \<Rightarrow> (Some (DOMException ex), s1)
      | (None, s2) \<Rightarrow>
          (let isIsolated = startsWith (pathname location) ''/isolated'';
               info = find_info cfg (pathname location)
           in if isIsolated \<and> info = None
              then (None, update_document (\<lambda>d. d\<lparr>body_innerHTML := SorryNothingHere\<rparr>) s2)
              else
                (let s3 = s2\<lparr>timers := timers s2 @ [SetTitle (title_for info (projectTitle cfg))]\<rparr>
                 in case (if isIsolated then info else None) of
                      Some i \<Rightarrow>
                        (case moduleWithDefaultExport (imports_arg cfg) (filePath i) of
                           Inl err \<Rightarrow> (Some (Thrown err), s3)
                         | Inr loader \<Rightarrow>
                             (None, (renderIsolated loader s3)
                                      \<lparr>previousLocation := location,
                                       previousIsIsolated := Some isIsolated\<rparr>))
                    | None \<Rightarrow>
                        (None, (if previousIsIsolated s3 = Some isIsolated then s3 else renderReact s3)
                                 \<lparr>previousLocation := location,
                                  previousIsIsolated := Some isIsolated\<rparr>))))"

section \<open>Events\<close>

text \<open>
  What the browser delivers, one at a time: a navigation (the history library sets
  \<open>history.location\<close> to a new object and calls the listener with it), the settling of
  a pending module promise, a timer, the load event of a script of a replay.
\<close>

datatype event =
    Navigate location
  | ModuleSettles nat
  | TimerFires nat
  | ScriptLoads nat nat


definition remove_nth :: "nat \<Rightarrow> 'a list \<Rightarrow> 'a list" where
  "remove_nth k xs = take k xs @ drop (Suc k) xs"

definition navigate :: "config \<Rightarrow> location \<Rightarrow> state \<Rightarrow> state" where
  "navigate cfg loc s =
     (case handleLocationChange cfg loc (s\<lparr>history_location := loc\<rparr>) of
        (None, s') \<Rightarrow> s'
      | (Some ex, s') \<Rightarrow> perform (Uncaught ex) s')"

fun apply_loader_effect :: "state \<Rightarrow> loader_effect \<Rightarrow> state" where
  "apply_loader_effect s TargetBlankifyInstructionLinks = s\<lparr>timers := timers s @ [BlankifyLinks]\<rparr>"
| "apply_loader_effect s (ConsoleErrorImporting path err) = perform (ConsoleError path err) s"

definition module_settles :: "config \<Rightarrow> nat \<Rightarrow> state \<Rightarrow> state" where
  "module_settles cfg k s =
     (if k < length (pending_imports s) then
        (let outcome = invoke (pending_imports s ! k);
             s1 = foldl apply_loader_effect
                    (s\<lparr>pending_imports := remove_nth k (pending_imports s)\<rparr>) (fst outcome)
         in case snd outcome of
              Fulfilled m \<Rightarrow> renderIsolated_then cfg m s1
            | Rejected err \<Rightarrow> perform (UnhandledRejection err) s1)
      else s)"

definition timer_fires :: "nat \<Rightarrow> state \<Rightarrow> state" where
  "timer_fires k s =
     (if k < length (timers s) then
        (let s1 = s\<lparr>timers := remove_nth k (timers s)\<rparr>
         in case timers s ! k of
              SetTitle t \<Rightarrow>
                if document_title (documentElement s1) = t then s1
                else update_document (\<lambda>d. d\<lparr>title_text := t\<rparr>) s1
            | BlankifyLinks \<Rightarrow> perform TargetBlankifyCallback s1)
      else s)"

definition script_loads :: "nat \<Rightarrow> nat \<Rightarrow> state \<Rightarrow> state" where
  "script_loads k j s =
     (if k < length (replays s)
      then s\<lparr>replays := (replays s)[k := load_event j (replays s ! k)]\<rparr>
      else s)"

fun step :: "config \<Rightarrow> state \<Rightarrow> event \<Rightarrow> state" where
  "step cfg s (Navigate loc) = navigate cfg loc s"
| "step cfg s (ModuleSettles k) = module_settles cfg k s"
| "step cfg s (TimerFires k) = timer_fires k s"
| "step cfg s (ScriptLoads k j) = script_loads k j s"

definition run :: "config \<Rightarrow> state \<Rightarrow> event list \<Rightarrow> state" where
  "run cfg s evs = foldl (step cfg) s evs"

section \<open>Start-up\<close>

definition initial_state :: "location \<Rightarrow> document_element \<Rightarrow> state" where
  "initial_state loc doc =
     \<lparr>history_location = loc, previousLocation = loc, previousIsIsolated = None,
      originalDocumentElement = doc, replacementDocumentElement = None, unmount = None,
      timers = [], pending_imports = [], replays = [], effects = []\<rparr>"

text \<open>
  \<open>makeKCDWorkshopApp\<close>, with \<open>history.location\<close> and the document as they are when it
  is called: the registry, the mock server, and the first pass of the handler.
\<close>

definition makeKCDWorkshopApp ::
  "config \<Rightarrow> location \<Rightarrow> document_element \<Rightarrow> thrown option \<times> state" where
  "makeKCDWorkshopApp cfg loc doc =
     (case register_lazyComponents (imports_arg cfg) (filesInfo cfg) [] of
        Inl err \<Rightarrow> (Some (Thrown err), initial_state loc doc)
      | Inr lazyComponents \<Rightarrow>
          handleLocationChange cfg loc
            (if backend_start cfg then perform ServerStart (initial_state loc doc)
             else initial_state loc doc))"

section \<open>Notions for the statements and their proofs\<close>

text \<open>
  The positions of the replaced scripts in a trace, in the order of their replacement.
\<close>

fun replaced_positions :: "replay_action list \<Rightarrow> nat list" where
  "replaced_positions [] = []"
| "replaced_positions (Replaced i el # tr) = i # replaced_positions tr"
| "replaced_positions (a # tr) = replaced_positions tr"

text \<open>
  A script with a \<open>src\<close> attribute; what an action needs from the trace before it (an
  inline script and the end of the pass need the load events of the external scripts
  before them); and the invariant of the replay.
\<close>

definition external :: "script_element list \<Rightarrow> nat \<Rightarrow> bool" where
  "external scs j = hasAttribute (scs ! j) ''src''"

fun allowed :: "script_element list \<Rightarrow> replay_action list \<Rightarrow> replay_action \<Rightarrow> bool" where
  "allowed scs pre (Replaced i el) =
     (external scs i \<or> (\<forall>j<i. external scs j \<longrightarrow> LoadFired j \<in> set pre))"
| "allowed scs pre AllLoaded = (\<forall>j<length scs. external scs j \<longrightarrow> LoadFired j \<in> set pre)"
| "allowed scs pre a = True"

definition ordered :: "script_element list \<Rightarrow> replay_action list \<Rightarrow> bool" where
  "ordered scs tr = (\<forall>pre a post. tr = pre @ a # post \<longrightarrow> allowed scs pre a)"

definition replay_inv :: "script_element list \<Rightarrow> replay \<Rightarrow> bool" where
  "replay_inv scs r =
     (scripts r = scs \<and> position r \<le> length scs
      \<and> replaced_positions (trace r) = [0..<position r]
      \<and> loadingScriptsQueue r = filter (external scs) [0..<position r]
      \<and> set (loaded r) = {j. LoadFired j \<in> set (trace r)}
      \<and> ordered scs (trace r)
      \<and> (completed r \<longrightarrow> position r = length scs))"

text \<open>The class list the handler leaves on the live body.\<close>

definition next_classList :: "string \<Rightarrow> string \<Rightarrow> string list \<Rightarrow> string list" where
  "next_classList prev new cl =
     (let cl1 = removeAll prev cl in if new \<in> set cl1 then cl1 else cl1 @ [new])"

definition set_classes :: "location \<Rightarrow> location \<Rightarrow> document_element \<Rightarrow> document_element" where
  "set_classes previous location d =
     d\<lparr>body_classList :=
         next_classList (escapeForClassList (pathname previous))
           (escapeForClassList (pathname location)) (body_classList d)\<rparr>"

definition after_classList :: "location \<Rightarrow> state \<Rightarrow> state" where
  "after_classList location s = update_document (set_classes (previousLocation s) location) s"

text \<open>The state in which the title timer has been set.\<close>

definition with_title_timer :: "config \<Rightarrow> location \<Rightarrow> state \<Rightarrow> state" where
  "with_title_timer cfg location s =
     (after_classList location s)
       \<lparr>timers := timers s @
          [SetTitle (title_for (find_info cfg (pathname location)) (projectTitle cfg))]\<rparr>"

text \<open>
  A registry entry that comes from an entry of the manifest with a component
  extension, with the loader the resolver returns for its path.
\<close>

definition registered_for :: "Imports \<Rightarrow> FileInfo list \<Rightarrow> string \<times> lazy_component \<Rightarrow> bool" where
  "registered_for imports files entry =
     (\<exists>info \<in> set files. ext info \<in> set componentExtensions \<and> filePath info = fst entry
        \<and> moduleWithDefaultExport imports (fst entry) = Inr (case snd entry of React_lazy l \<Rightarrow> l))"

section \<open>Example inputs\<close>

text \<open>
  A page with a root element, a manifest of two exercise files, an instruction and an
  HTML file, the modules they import, and an isolated HTML file whose scripts are one
  external script followed by one inline script. Variants: manifests with an instruction
  that has a filename and no title and with an instruction numbered \<open>0\<close>, an empty
  project title, and an HTML file whose import is fulfilled with the markup of an empty
  page.
\<close>

definition demo_document :: document_element where
  "demo_document =
     \<lparr>title_text = ''Workshop'', body_classList = [], body_innerHTML = Content True,
      script_elements = []\<rparr>"

definition demo_scripts :: "script_element list" where
  "demo_scripts =
     [\<lparr>attributes = [(''src'', ''lib.js'')], innerHTML = []\<rparr>,
      \<lparr>attributes = [], innerHTML = ''start()''\<rparr>]"

definition file_a :: FileInfo where
  "file_a = \<lparr>ext = ''.js'', filePath = ''src/a.js'', number = None, title = Some ''A'',
             filename = Some ''a.js'', type = ''exercise''\<rparr>"

definition file_b :: FileInfo where
  "file_b = \<lparr>ext = ''.js'', filePath = ''src/b.js'', number = None, title = Some ''B'',
             filename = Some ''b.js'', type = ''exercise''\<rparr>"

definition file_3 :: FileInfo where
  "file_3 = \<lparr>ext = ''.md'', filePath = ''src/exercise/03.md'', number = Some 3,
             title = Some ''Hooks'', filename = Some ''03.md'', type = ''instruction''\<rparr>"

definition file_0 :: FileInfo where
  "file_0 = \<lparr>ext = ''.md'', filePath = ''src/exercise/00.md'', number = Some 0,
             title = Some ''Intro'', filename = Some ''00.md'', type = ''instruction''\<rparr>"

definition file_4 :: FileInfo where
  "file_4 = \<lparr>ext = ''.md'', filePath = ''src/exercise/04.md'', number = Some 4,
             title = None, filename = Some ''04.md'', type = ''instruction''\<rparr>"

definition file_page :: FileInfo where
  "file_page = \<lparr>ext = ''.html'', filePath = ''src/page.html'', number = None, title = None,
                filename = Some ''page.html'', type = ''exercise''\<rparr>"

definition module_a :: module where
  "module_a = \<lparr>App = None, default_export = Some (Fn (Component ''A''))\<rparr>"

definition module_b :: module where
  "module_b = \<lparr>App = Some (Fn (Component ''B'')), default_export = Some (Fn (Component ''Other''))\<rparr>"

definition demo_imports :: Imports where
  "demo_imports =
     map_of [(''src/a.js'', Fulfilled module_a), (''src/b.js'', Fulfilled module_b),
             (''src/exercise/03.md'', Fulfilled module_a),
             (''src/exercise/00.md'', Rejected (Error ''boom'')),
             (''src/page.html'', Rejected (Error ''boom'')),
             (''foohtml'', Fulfilled module_b)]"

definition no_other_numbers :: "string \<Rightarrow> js_number" where
  "no_other_numbers s = NotANat"

definition parse_demo :: "string \<Rightarrow> document_element" where
  "parse_demo html = demo_document\<lparr>script_elements := demo_scripts\<rparr>"

definition demo_config :: config where
  "demo_config =
     \<lparr>imports_arg = demo_imports, filesInfo = [file_a, file_b, file_3, file_page],
      projectTitle = ''P'', backend_start = False, Number_other = no_other_numbers,
      parseFromString = parse_demo, Babel_loaded = False\<rparr>"

definition untitled_config :: config where
  "untitled_config = demo_config\<lparr>projectTitle := []\<rparr>"

definition named_config :: config where
  "named_config = demo_config\<lparr>filesInfo := [file_3, file_4]\<rparr>"

definition zero_config :: config where
  "zero_config = demo_config\<lparr>filesInfo := [file_0, file_3]\<rparr>"

definition demo_registry :: LazyComponents where
  "demo_registry =
     [(''src/a.js'', React_lazy (ImportJS ''src/a.js'' (Fulfilled module_a))),
      (''src/b.js'', React_lazy (ImportJS ''src/b.js'' (Fulfilled module_b))),
      (''src/exercise/03.md'', React_lazy (ImportJS ''src/exercise/03.md'' (Fulfilled module_a)))]"

definition page_module :: module where
  "page_module = \<lparr>App = None, default_export = Some (Str ''<html><body></body></html>'')\<rparr>"

definition parse_page :: "string \<Rightarrow> document_element" where
  "parse_page html =
     \<lparr>title_text = [], body_classList = [], body_innerHTML = Content False,
      script_elements = []\<rparr>"

definition page_config :: config where
  "page_config =
     demo_config\<lparr>imports_arg := demo_imports(''src/page.html'' := Some (Fulfilled page_module)),
                 parseFromString := parse_page\<rparr>"

definition page_start :: state where
  "page_start = snd (makeKCDWorkshopApp page_config \<lparr>ref = 0, pathname = ''/''\<rparr> demo_document)"

definition demo_start :: state where
  "demo_start = snd (makeKCDWorkshopApp demo_config \<lparr>ref = 0, pathname = ''/''\<rparr> demo_document)"

section \<open>Properties of the module resolver\<close>

text \<open>
  Claim C3, as the code has it. The resolver tests \<open>filePath.endsWith('html')\<close>, so the
  paths whose loader is normalized are those that do not end in the four characters
  \<open>html\<close>. For such a path with an import that is fulfilled with module \<open>m\<close>, the
  returned loader is fulfilled with a module whose default export is \<open>m.App\<close> if that is
  present, otherwise \<open>m.default\<close> if that is present, otherwise \<open>DO_NOT_RENDER\<close>; and
  for a Markdown path it calls \<open>targetBlankifyInstructionLinks\<close>.
\<close>

theorem importJS_prefers_App_then_default:
  assumes "\<not> endsWith path ''html''" and "imports path = Some (Fulfilled m)"
  shows "\<exists>loader. moduleWithDefaultExport imports path = Inr loader
           \<and> snd (invoke loader) =
               Fulfilled \<lparr>App = None,
                          default_export =
                            Some (case App m of
                                    Some a \<Rightarrow> a
                                  | None \<Rightarrow> (case default_export m of
                                               Some d \<Rightarrow> d
                                             | None \<Rightarrow> Fn DO_NOT_RENDER))\<rparr>
           \<and> fst (invoke loader) =
               (if matches_mdx path then [TargetBlankifyInstructionLinks] else [])"
  using assms by (simp add: moduleWithDefaultExport_def normalized_export_def)

theorem importJS_prefers_App_then_default_witness:
  "\<not> endsWith ''src/b.js'' ''html''
   \<and> demo_imports ''src/b.js'' = Some (Fulfilled module_b)
   \<and> moduleWithDefaultExport demo_imports ''src/b.js'' = Inr (ImportJS ''src/b.js'' (Fulfilled module_b))
   \<and> snd (invoke (ImportJS ''src/b.js'' (Fulfilled module_b)))
        = Fulfilled \<lparr>App = None, default_export = Some (Fn (Component ''B''))\<rparr>"
proof -
  have h1: "\<not> endsWith ''src/b.js'' ''html''" by code_simp
  have h2: "demo_imports ''src/b.js'' = Some (Fulfilled module_b)" by code_simp
  have l: "moduleWithDefaultExport demo_imports ''src/b.js'' = Inr (ImportJS ''src/b.js'' (Fulfilled module_b))"
    by code_simp
  from importJS_prefers_App_then_default [of "''src/b.js''" demo_imports module_b, OF h1 h2] l
  have "snd (invoke (ImportJS ''src/b.js'' (Fulfilled module_b)))
        = Fulfilled \<lparr>App = None, default_export = Some (Fn (Component ''B''))\<rparr>"
    by (simp add: module_b_def)
  with h1 h2 l show ?thesis by blast
qed

text \<open>
  Claim C3 as stated speaks of paths not ending in an HTML extension. The path
  \<open>foohtml\<close> does not end in \<open>.html\<close>, yet the resolver returns its import function
  itself: the module is passed on as it is, with its own default export and not its
  \<open>App\<close> export.
\<close>

theorem html_suffix_without_extension_counterexample:
  "\<not> endsWith ''foohtml'' ''.html''
   \<and> demo_imports ''foohtml'' = Some (Fulfilled module_b)
   \<and> moduleWithDefaultExport demo_imports ''foohtml'' = Inr (RawImport (Fulfilled module_b))
   \<and> snd (invoke (RawImport (Fulfilled module_b))) = Fulfilled module_b
   \<and> App module_b = Some (Fn (Component ''B''))
   \<and> normalized_export module_b = Fn (Component ''B'')
   \<and> default_export module_b = Some (Fn (Component ''Other''))"
  by code_simp

text \<open>
  Claim C4, as the code has it. For a path that does not end in \<open>html\<close> and whose import
  is rejected with \<open>err\<close>, the returned loader logs the error and is fulfilled with a
  component that shows the message of \<open>err\<close>.
\<close>

theorem importJS_absorbs_rejection:
  assumes "\<not> endsWith path ''html''" and "imports path = Some (Rejected err)"
  shows "\<exists>loader. moduleWithDefaultExport imports path = Inr loader
           \<and> invoke loader =
               ([ConsoleErrorImporting path err],
                Fulfilled \<lparr>App = None, default_export = Some (Fn (ErrorDiv (message err)))\<rparr>)"
  using assms by (simp add: moduleWithDefaultExport_def)

theorem importJS_absorbs_rejection_witness:
  "\<not> endsWith ''src/exercise/00.md'' ''html''
   \<and> demo_imports ''src/exercise/00.md'' = Some (Rejected (Error ''boom''))
   \<and> moduleWithDefaultExport demo_imports ''src/exercise/00.md''
        = Inr (ImportJS ''src/exercise/00.md'' (Rejected (Error ''boom'')))
   \<and> snd (invoke (ImportJS ''src/exercise/00.md'' (Rejected (Error ''boom''))))
        = Fulfilled \<lparr>App = None, default_export = Some (Fn (ErrorDiv ''boom''))\<rparr>"
proof -
  have h1: "\<not> endsWith ''src/exercise/00.md'' ''html''" by code_simp
  have h2: "demo_imports ''src/exercise/00.md'' = Some (Rejected (Error ''boom''))" by code_simp
  have l: "moduleWithDefaultExport demo_imports ''src/exercise/00.md''
        = Inr (ImportJS ''src/exercise/00.md'' (Rejected (Error ''boom'')))"
    by code_simp
  from importJS_absorbs_rejection [of "''src/exercise/00.md''" demo_imports "Error ''boom''", OF h1 h2] l
  have "snd (invoke (ImportJS ''src/exercise/00.md'' (Rejected (Error ''boom''))))
        = Fulfilled \<lparr>App = None, default_export = Some (Fn (ErrorDiv ''boom''))\<rparr>"
    by simp
  with h1 h2 l show ?thesis by blast
qed

text \<open>
  Claim C4 as stated covers every file path. For \<open>src/page.html\<close> with a rejected import
  the returned loader is the import function itself, and it is rejected.
\<close>

theorem html_rejection_propagates_counterexample:
  "demo_imports ''src/page.html'' = Some (Rejected (Error ''boom''))
   \<and> moduleWithDefaultExport demo_imports ''src/page.html''
        = Inr (RawImport (Rejected (Error ''boom'')))
   \<and> snd (invoke (RawImport (Rejected (Error ''boom'')))) = Rejected (Error ''boom'')"
  by code_simp

text \<open>
  Claim C10. For a path that ends in the characters \<open>html\<close> (\<open>foohtml\<close> is one) and has
  an import, the resolver returns the import function unchanged: calling it has no
  effect of the resolver's and settles as the import does, so a rejection reaches the
  caller.
\<close>

theorem html_path_returns_raw_loader:
  assumes "endsWith path ''html''" and "imports path = Some importFn"
  shows "moduleWithDefaultExport imports path = Inr (RawImport importFn)
       \<and> invoke (RawImport importFn) = ([], importFn)
       \<and> (\<forall>err. importFn = Rejected err \<longrightarrow> snd (invoke (RawImport importFn)) = Rejected err)"
  using assms by (simp add: moduleWithDefaultExport_def)

theorem html_path_returns_raw_loader_witness:
  "endsWith ''foohtml'' ''html''
   \<and> moduleWithDefaultExport (map_of [(''foohtml'', Rejected (Error ''offline''))]) ''foohtml''
        = Inr (RawImport (Rejected (Error ''offline'')))
   \<and> snd (invoke (RawImport (Rejected (Error ''offline'')))) = Rejected (Error ''offline'')"
proof -
  have h1: "endsWith ''foohtml'' ''html''" by code_simp
  have h2: "map_of [(''foohtml'', Rejected (Error ''offline''))] ''foohtml''
              = Some (Rejected (Error ''offline''))"
    by simp
  from html_path_returns_raw_loader [of "''foohtml''" "map_of [(''foohtml'', Rejected (Error ''offline''))]" "Rejected (Error ''offline'')", OF h1 h2] h1
  show ?thesis by blast
qed

section \<open>The lazy component registry\<close>

lemma set_property_keys: "fst ` set (set_property k v obj) = insert k (fst ` set obj)"
  by (force simp: set_property_def image_iff split: if_splits)

lemma set_property_entries:
  "(k', v') \<in> set (set_property k v obj) \<Longrightarrow> (k' = k \<and> v' = v) \<or> (k', v') \<in> set obj"
  by (auto simp: set_property_def split: if_splits)

lemma register_keys:
  "register_lazyComponents imports files acc = Inr reg \<Longrightarrow>
   fst ` set reg = fst ` set acc \<union> {filePath i | i. i \<in> set files \<and> ext i \<in> set componentExtensions}"
proof (induction files arbitrary: acc)
  case Nil
  then show ?case by simp
next
  case (Cons info rest)
  show ?case
  proof (cases "ext info \<in> set componentExtensions")
    case False
    with Cons.prems have "register_lazyComponents imports rest acc = Inr reg" by simp
    from Cons.IH [OF this] False show ?thesis by auto
  next
    case True
    with Cons.prems obtain loader where
      "moduleWithDefaultExport imports (filePath info) = Inr loader" and
      "register_lazyComponents imports rest
         (set_property (filePath info) (React_lazy loader) acc) = Inr reg"
      by (auto split: sum.splits)
    from Cons.IH [OF this(2)] True show ?thesis
      by (auto simp: set_property_keys)
  qed
qed

lemma register_entries:
  "register_lazyComponents imports files acc = Inr reg \<Longrightarrow> entry \<in> set reg \<Longrightarrow>
   entry \<in> set acc \<or> registered_for imports files entry"
proof (induction files arbitrary: acc)
  case Nil
  then show ?case by simp
next
  case (Cons info rest)
  show ?case
  proof (cases "ext info \<in> set componentExtensions")
    case False
    with Cons.prems have "register_lazyComponents imports rest acc = Inr reg" by simp
    from Cons.IH [OF this Cons.prems(2)] show ?thesis
      by (auto simp: registered_for_def)
  next
    case True
    with Cons.prems obtain loader where
      loader: "moduleWithDefaultExport imports (filePath info) = Inr loader" and
      rest: "register_lazyComponents imports rest
         (set_property (filePath info) (React_lazy loader) acc) = Inr reg"
      by (auto split: sum.splits)
    from Cons.IH [OF rest Cons.prems(2)]
    consider "entry \<in> set (set_property (filePath info) (React_lazy loader) acc)"
      | "registered_for imports rest entry" by blast
    then show ?thesis
    proof cases
      case 1
      obtain k c where entry: "entry = (k, c)" by (cases entry)
      with 1 have "(k = filePath info \<and> c = React_lazy loader) \<or> (k, c) \<in> set acc"
        by (auto dest: set_property_entries)
      with True loader entry show ?thesis
        by (auto simp: registered_for_def)
    next
      case 2
      then show ?thesis by (auto simp: registered_for_def)
    qed
  qed
qed

lemma registration_completes:
  assumes "\<forall>info \<in> set files. ext info \<in> set componentExtensions \<longrightarrow> imports (filePath info) \<noteq> None"
  shows "\<exists>reg. register_lazyComponents imports files acc = Inr reg"
  using assms
proof (induction files arbitrary: acc)
  case Nil
  then show ?case by simp
next
  case (Cons info rest)
  then show ?case
    by (auto simp: moduleWithDefaultExport_def split: option.split)
qed

text \<open>
  Claim C9. When the registration loop has run to its end, every entry of the manifest
  whose extension is a component extension has a registry entry under its file path, and
  every registry entry is the lazy wrapper of the loader of such an entry of the
  manifest.
\<close>

theorem registry_matches_manifest:
  assumes "register_lazyComponents imports files [] = Inr lazyComponents"
  shows "(\<forall>info \<in> set files. ext info \<in> set componentExtensions
            \<longrightarrow> filePath info \<in> fst ` set lazyComponents)
       \<and> (\<forall>(path, c) \<in> set lazyComponents.
            \<exists>info \<in> set files. ext info \<in> set componentExtensions \<and> filePath info = path
              \<and> (\<exists>loader. moduleWithDefaultExport imports path = Inr loader \<and> c = React_lazy loader))"
proof -
  from register_keys [OF assms]
  have keys: "fst ` set lazyComponents = {filePath i | i. i \<in> set files \<and> ext i \<in> set componentExtensions}"
    by simp
  have "\<exists>info \<in> set files. ext info \<in> set componentExtensions \<and> filePath info = path
              \<and> (\<exists>loader. moduleWithDefaultExport imports path = Inr loader \<and> c = React_lazy loader)"
    if "(path, c) \<in> set lazyComponents" for path c
  proof -
    from register_entries [OF assms that] have "registered_for imports files (path, c)" by simp
    then show ?thesis
      by (cases c) (auto simp: registered_for_def)
  qed
  with keys show ?thesis by auto
qed

theorem registry_matches_manifest_witness:
  "register_lazyComponents demo_imports (filesInfo demo_config) [] = Inr demo_registry
   \<and> ext file_a \<in> set componentExtensions
   \<and> filePath file_a \<in> fst ` set demo_registry
   \<and> ext file_page \<notin> set componentExtensions
   \<and> filePath file_page \<notin> fst ` set demo_registry"
proof -
  have h: "register_lazyComponents demo_imports (filesInfo demo_config) [] = Inr demo_registry"
    by code_simp
  have a: "file_a \<in> set (filesInfo demo_config)" "ext file_a \<in> set componentExtensions"
    by code_simp+
  have p: "ext file_page \<notin> set componentExtensions" "filePath file_page \<notin> fst ` set demo_registry"
    by code_simp+
  from registry_matches_manifest [OF h] a have "filePath file_a \<in> fst ` set demo_registry"
    by blast
  with h a p show ?thesis by blast
qed

section \<open>The script replay\<close>

lemma snoc_eq_split:
  "(tr @ [b] = pre @ a # post) =
     ((post = [] \<and> pre = tr \<and> a = b) \<or> (\<exists>post'. post = post' @ [b] \<and> tr = pre @ a # post'))"
  by (cases post rule: rev_cases) auto

lemma ordered_Nil: "ordered scs []"
  by (simp add: ordered_def)

lemma ordered_snoc: "ordered scs (tr @ [b]) = (ordered scs tr \<and> allowed scs tr b)"
  unfolding ordered_def snoc_eq_split by blast

lemma replaced_positions_append:
  "replaced_positions (xs @ ys) = replaced_positions xs @ replaced_positions ys"
  by (induction xs rule: replaced_positions.induct) auto

lemma queue_resolved_iff:
  "queue_resolved r = (set (loadingScriptsQueue r) \<subseteq> set (loaded r))"
  by (auto simp: queue_resolved_def list_all_iff)

lemma resolved_loads_fired:
  assumes "replay_inv scs r" and "queue_resolved r" and "j < position r" and "external scs j"
  shows "LoadFired j \<in> set (trace r)"
proof -
  from assms have "j \<in> set (loadingScriptsQueue r)"
    by (simp add: replay_inv_def)
  with assms(2) have "j \<in> set (loaded r)"
    by (auto simp: queue_resolved_iff)
  with assms(1) show ?thesis
    by (simp add: replay_inv_def)
qed

lemma replace_script_inv:
  assumes inv: "replay_inv scs r" and pos: "position r < length (scripts r)"
    and go: "hasAttribute (scripts r ! position r) ''src'' \<or> queue_resolved r"
  shows "replay_inv scs (replace_script r)"
proof -
  have "allowed scs (trace r) (Replaced (position r) (newScript_for (scripts r ! position r)))"
  proof (cases "external scs (position r)")
    case True
    then show ?thesis by simp
  next
    case False
    with go inv have "queue_resolved r"
      by (simp add: external_def replay_inv_def)
    with inv show ?thesis
      by (simp add: resolved_loads_fired)
  qed
  with inv pos show ?thesis
    by (auto simp: replay_inv_def replace_script_def Let_def replaced_positions_append
        ordered_snoc external_def)
qed

lemma finish_replay_inv:
  assumes inv: "replay_inv scs r" and pos: "\<not> position r < length (scripts r)"
  shows "replay_inv scs (finish_replay r)"
proof (cases "completed r \<or> \<not> queue_resolved r")
  case True
  with inv show ?thesis by (simp add: finish_replay_def)
next
  case False
  from inv pos have full: "position r = length scs"
    by (simp add: replay_inv_def)
  with False inv have "allowed scs (trace r) AllLoaded"
    by (simp add: resolved_loads_fired)
  then have "ordered scs (trace r @ AllLoaded # (if window_Babel r then [TransformScriptTags] else []))"
    using inv ordered_snoc [of scs "trace r @ [AllLoaded]" TransformScriptTags]
    by (simp add: replay_inv_def ordered_snoc)
  with False inv full show ?thesis
    by (simp add: replay_inv_def finish_replay_def replaced_positions_append)
qed

lemma replay_loop_inv: "replay_inv scs r \<Longrightarrow> replay_inv scs (replay_loop r)"
proof (induction r rule: replay_loop.induct)
  case (1 r)
  show ?case
  proof (cases "position r < length (scripts r)")
    case True
    show ?thesis
    proof (cases "\<not> hasAttribute (scripts r ! position r) ''src'' \<and> \<not> queue_resolved r")
      case wait: True
      with True "1.prems" show ?thesis
        by (subst replay_loop.simps) simp
    next
      case go: False
      with True "1.prems" have "replay_inv scs (replace_script r)"
        by (intro replace_script_inv) auto
      with "1.IH" [OF True go] have "replay_inv scs (replay_loop (replace_script r))" .
      with True go show ?thesis
        by (subst replay_loop.simps) auto
    qed
  next
    case False
    with "1.prems" have "replay_inv scs (finish_replay r)"
      by (rule finish_replay_inv)
    with False show ?thesis
      by (subst replay_loop.simps) simp
  qed
qed

lemma replay_start_inv: "replay_inv scs (replay_start babel scs)"
  unfolding replay_start_def
  by (rule replay_loop_inv) (simp add: replay_inv_def ordered_Nil)

lemma load_fired_inv:
  assumes "replay_inv scs r"
  shows "replay_inv scs (r\<lparr>loaded := loaded r @ [j], trace := trace r @ [LoadFired j]\<rparr>)"
proof -
  have "{k. k = j \<or> LoadFired k \<in> set (trace r)} = insert j {k. LoadFired k \<in> set (trace r)}"
    by blast
  with assms show ?thesis
    by (simp add: replay_inv_def ordered_snoc replaced_positions_append)
qed

lemma load_event_inv: "replay_inv scs r \<Longrightarrow> replay_inv scs (load_event j r)"
  by (simp add: load_event_def replay_loop_inv load_fired_inv)

lemma loads_inv: "replay_inv scs r \<Longrightarrow> replay_inv scs (foldl (\<lambda>r j. load_event j r) r loads)"
  by (induction loads arbitrary: r) (simp_all add: load_event_inv)

text \<open>
  Claim C2. Whatever load events the browser delivers, the scripts are replaced in
  document order; when an inline script is replaced (and so run), the load event of every
  external script before it has fired; and when the last \<open>await\<close> is passed, the load
  event of every external script has fired.
\<close>

theorem replay_order:
  "replaced_positions (trace (replay_after babel scs loads))
     = [0..<position (replay_after babel scs loads)]
   \<and> (\<forall>pre i el post.
         trace (replay_after babel scs loads) = pre @ Replaced i el # post
         \<and> \<not> hasAttribute (scs ! i) ''src''
         \<longrightarrow> (\<forall>j<i. hasAttribute (scs ! j) ''src'' \<longrightarrow> LoadFired j \<in> set pre))
   \<and> (\<forall>pre post.
         trace (replay_after babel scs loads) = pre @ AllLoaded # post
         \<longrightarrow> (\<forall>j<length scs. hasAttribute (scs ! j) ''src'' \<longrightarrow> LoadFired j \<in> set pre))"
proof -
  define r where "r = replay_after babel scs loads"
  have inv: "replay_inv scs r"
    unfolding r_def replay_after_def by (intro loads_inv replay_start_inv)
  then have ord: "ordered scs (trace r)"
    by (simp add: replay_inv_def)
  have a: "replaced_positions (trace r) = [0..<position r]"
    using inv by (simp add: replay_inv_def)
  have b: "LoadFired j \<in> set pre"
    if "trace r = pre @ Replaced i el # post" "\<not> hasAttribute (scs ! i) ''src''"
       "j < i" "hasAttribute (scs ! j) ''src''" for pre i el post j
  proof -
    from ord that(1) have "allowed scs pre (Replaced i el)"
      unfolding ordered_def by blast
    with that(2-) show ?thesis by (simp add: external_def)
  qed
  have c: "LoadFired j \<in> set pre"
    if "trace r = pre @ AllLoaded # post" "j < length scs" "hasAttribute (scs ! j) ''src''"
    for pre post j
  proof -
    from ord that(1) have "allowed scs pre AllLoaded"
      unfolding ordered_def by blast
    with that(2-) show ?thesis by (simp add: external_def)
  qed
  from a b c show ?thesis unfolding r_def by blast
qed

theorem replay_order_witness:
  "trace (replay_after False demo_scripts [0])
     = [Replaced 0 (demo_scripts ! 0), LoadFired 0, Replaced 1 (demo_scripts ! 1), AllLoaded]
   \<and> trace (replay_after False demo_scripts []) = [Replaced 0 (demo_scripts ! 0)]
   \<and> hasAttribute (demo_scripts ! 0) ''src''
   \<and> \<not> hasAttribute (demo_scripts ! 1) ''src''
   \<and> LoadFired 0 \<in> set [Replaced 0 (demo_scripts ! 0), LoadFired 0]
   \<and> LoadFired 0 \<in> set [Replaced 0 (demo_scripts ! 0), LoadFired 0, Replaced 1 (demo_scripts ! 1)]"
proof -
  have tr: "trace (replay_after False demo_scripts [0])
     = [Replaced 0 (demo_scripts ! 0), LoadFired 0] @ Replaced 1 (demo_scripts ! 1) # [AllLoaded]"
    by code_simp
  have tr': "trace (replay_after False demo_scripts [0])
     = [Replaced 0 (demo_scripts ! 0), LoadFired 0, Replaced 1 (demo_scripts ! 1)] @ AllLoaded # []"
    by code_simp
  have blocked: "trace (replay_after False demo_scripts []) = [Replaced 0 (demo_scripts ! 0)]"
    by code_simp
  have ext: "hasAttribute (demo_scripts ! 0) ''src''" and inl: "\<not> hasAttribute (demo_scripts ! 1) ''src''"
    and len: "0 < length demo_scripts"
    by code_simp+
  note order = replay_order [of False demo_scripts "[0]"]
  from order tr inl ext
  have one: "LoadFired 0 \<in> set [Replaced 0 (demo_scripts ! 0), LoadFired 0]"
    by blast
  from order tr' ext len
  have two: "LoadFired 0 \<in> set [Replaced 0 (demo_scripts ! 0), LoadFired 0, Replaced 1 (demo_scripts ! 1)]"
    by blast
  from tr blocked ext inl one two show ?thesis by simp
qed

section \<open>The class list and the passes of the handler\<close>

lemma percent_encode_nonempty: "percent_encode c \<noteq> []"
  by (simp add: percent_encode_def)

lemma encodeURIComponent_nonempty: "s \<noteq> [] \<Longrightarrow> encodeURIComponent s \<noteq> []"
  by (cases s) (simp_all add: encodeURIComponent_def percent_encode_nonempty)

lemma escapeForClassList_nonempty: "name \<noteq> [] \<Longrightarrow> escapeForClassList name \<noteq> []"
  by (simp add: escapeForClassList_def replace_slashes_def encodeURIComponent_nonempty)

lemma unreserved_no_whitespace: "uri_unreserved c \<Longrightarrow> \<not> ascii_whitespace c"
  by (auto simp: uri_unreserved_def ascii_whitespace_def)

lemma hex_digit_no_whitespace: "\<not> ascii_whitespace (hex_digit n)"
proof -
  have "n mod 16 < length ''0123456789ABCDEF''" by simp
  then have "hex_digit n \<in> set ''0123456789ABCDEF''"
    unfolding hex_digit_def by (rule nth_mem)
  then show ?thesis
    by (auto simp: ascii_whitespace_def)
qed

lemma percent_encode_no_whitespace: "\<not> list_ex ascii_whitespace (percent_encode c)"
  by (simp add: percent_encode_def unreserved_no_whitespace hex_digit_no_whitespace)
     (simp add: ascii_whitespace_def)

lemma encodeURIComponent_no_whitespace: "\<not> list_ex ascii_whitespace (encodeURIComponent s)"
  using percent_encode_no_whitespace
  by (induction s) (simp_all add: encodeURIComponent_def)

lemma classList_add_escaped:
  "name \<noteq> [] \<Longrightarrow>
   classList_add (escapeForClassList name) cl =
     Inr (if escapeForClassList name \<in> set cl then cl else cl @ [escapeForClassList name])"
  using escapeForClassList_nonempty [of name] encodeURIComponent_no_whitespace
  by (simp add: classList_add_def escapeForClassList_def)

lemma documentElement_update: "documentElement (update_document f s) = f (documentElement s)"
  by (simp add: documentElement_def update_document_def split: option.split)

lemma update_document_fields:
  "history_location (update_document f s) = history_location s"
  "previousLocation (update_document f s) = previousLocation s"
  "previousIsIsolated (update_document f s) = previousIsIsolated s"
  "unmount (update_document f s) = unmount s"
  "timers (update_document f s) = timers s"
  "pending_imports (update_document f s) = pending_imports s"
  "replays (update_document f s) = replays s"
  "effects (update_document f s) = effects s"
  "(replacementDocumentElement (update_document f s) = None) = (replacementDocumentElement s = None)"
  by (simp_all add: update_document_def split: option.split)

lemma update_document_twice:
  "update_document g (update_document f s) = update_document (\<lambda>d. g (f d)) s"
  by (simp add: update_document_def split: option.split)

lemma update_document_same: "(\<And>d. f d = d) \<Longrightarrow> update_document f s = s"
  by (cases "replacementDocumentElement s") (simp_all add: update_document_def)

lemma update_classList_eq:
  assumes "pathname location \<noteq> []"
  shows "update_classList location s = (None, after_classList location s)"
proof -
  let ?prev = "escapeForClassList (pathname (previousLocation s))"
  let ?new = "escapeForClassList (pathname location)"
  let ?cl = "body_classList (documentElement s)"
  let ?rm = "\<lambda>d. d\<lparr>body_classList := classList_remove ?prev (body_classList d)\<rparr>"
  define s1 where "s1 = (if classList_contains ?cl ?prev then update_document ?rm s else s)"
  have s1: "s1 = update_document ?rm s"
  proof (cases "classList_contains ?cl ?prev")
    case True
    then show ?thesis by (simp add: s1_def)
  next
    case False
    then have "?rm (documentElement s) = documentElement s"
      by (simp add: classList_contains_def classList_remove_def)
    then have "update_document ?rm s = s"
      by (cases "replacementDocumentElement s")
        (simp_all add: update_document_def documentElement_def)
    with False show ?thesis by (simp add: s1_def)
  qed
  have cl1: "body_classList (documentElement s1) = removeAll ?prev ?cl"
    by (simp add: s1 documentElement_update classList_remove_def)
  have unfold: "update_classList location s =
      (if \<not> classList_contains (body_classList (documentElement s1)) ?new
       then (case classList_add ?new (body_classList (documentElement s1)) of
               Inl ex \<Rightarrow> (Some ex, s1)
             | Inr cl \<Rightarrow> (None, update_document (\<lambda>d. d\<lparr>body_classList := cl\<rparr>) s1))
       else (None, s1))"
    unfolding update_classList_def Let_def s1_def by (rule refl)
  then have unfold: "update_classList location s =
      (if ?new \<notin> set (removeAll ?prev ?cl)
       then (case classList_add ?new (removeAll ?prev ?cl) of
               Inl ex \<Rightarrow> (Some ex, s1)
             | Inr cl \<Rightarrow> (None, update_document (\<lambda>d. d\<lparr>body_classList := cl\<rparr>) s1))
       else (None, s1))"
    by (simp only: cl1 classList_contains_def)
  show ?thesis
  proof (cases "?new \<in> set (removeAll ?prev ?cl)")
    case True
    then have "\<And>d. d = documentElement s \<Longrightarrow> set_classes (previousLocation s) location d = ?rm d"
      by (simp add: set_classes_def next_classList_def classList_remove_def Let_def)
    then have "update_document (set_classes (previousLocation s) location) s = update_document ?rm s"
      by (cases "replacementDocumentElement s")
        (simp_all add: update_document_def documentElement_def)
    with True show ?thesis
      by (simp add: unfold after_classList_def s1)
  next
    case False
    let ?add = "\<lambda>d::document_element. d\<lparr>body_classList := removeAll ?prev ?cl @ [?new]\<rparr>"
    have "\<And>d. d = documentElement s \<Longrightarrow> set_classes (previousLocation s) location d = ?add (?rm d)"
      using False by (simp add: set_classes_def next_classList_def classList_remove_def Let_def)
    then have "update_document (set_classes (previousLocation s) location) s
                 = update_document (\<lambda>d. ?add (?rm d)) s"
      by (cases "replacementDocumentElement s")
        (simp_all add: update_document_def documentElement_def)
    with False assms show ?thesis
      by (auto simp: unfold after_classList_def s1 classList_add_escaped update_document_twice)
  qed
qed

lemma after_classList_fields:
  "history_location (after_classList l s) = history_location s"
  "previousLocation (after_classList l s) = previousLocation s"
  "previousIsIsolated (after_classList l s) = previousIsIsolated s"
  "unmount (after_classList l s) = unmount s"
  "timers (after_classList l s) = timers s"
  "pending_imports (after_classList l s) = pending_imports s"
  "replays (after_classList l s) = replays s"
  "effects (after_classList l s) = effects s"
  "(replacementDocumentElement (after_classList l s) = None) = (replacementDocumentElement s = None)"
  by (simp_all add: after_classList_def update_document_fields)

lemma after_classList_document:
  "documentElement (after_classList l s) = set_classes (previousLocation s) l (documentElement s)"
  by (simp add: after_classList_def documentElement_update)

lemma next_classList_new: "new \<in> set (next_classList prev new cl)"
  by (simp add: next_classList_def Let_def)

lemma next_classList_prev: "prev \<noteq> new \<Longrightarrow> prev \<notin> set (next_classList prev new cl)"
  by (simp add: next_classList_def Let_def)

lemma startsWith_nonempty: "startsWith path ''/isolated'' \<Longrightarrow> path \<noteq> []"
  by (auto simp: startsWith_def)

lemma is_instruction_Num:
  "is_instruction (Num N) = (\<lambda>i. type i = ''instruction'' \<and> number i = Some N)"
  by (auto simp: is_instruction_def fun_eq_iff split: option.split)

lemma Number_js_digits: "list_all is_digit ds \<Longrightarrow> Number_js other ds = Num (decimal_value ds)"
  by (simp add: Number_js_def)

lemma title_for_None: "title_for None project = project"
  by (cases "project = []") (simp_all add: title_for_def filter_Boolean_def)

lemma title_for_Some:
  "title_for (Some info) project =
     (if info_label info = [] then project
      else if project = [] then info_label info
      else info_label info @ '' | '' @ project)"
  by (simp add: title_for_def filter_Boolean_def)

lemma split_whitespace_nonempty: "split_whitespace s \<noteq> []"
  by (induction s) (simp_all add: Let_def)

lemma split_whitespace_pieces:
  "w \<in> set (split_whitespace s) \<Longrightarrow> \<not> list_ex ascii_whitespace w"
proof (induction s arbitrary: w)
  case Nil
  then show ?case by simp
next
  case (Cons c cs)
  let ?r = "split_whitespace cs"
  have r: "?r = hd ?r # tl ?r"
    using split_whitespace_nonempty [of cs] by simp
  then have parts: "hd ?r \<in> set ?r" "set (tl ?r) \<subseteq> set ?r"
    by (metis list.set_intros(1), metis list.set_intros(2) subsetI)
  show ?case
  proof (cases "ascii_whitespace c")
    case True
    with Cons.prems have "w = [] \<or> w \<in> set ?r"
      by (simp add: Let_def)
    with Cons.IH show ?thesis by auto
  next
    case False
    with Cons.prems have "w = c # hd ?r \<or> w \<in> set (tl ?r)"
      by (simp add: Let_def)
    with Cons.IH parts False show ?thesis by auto
  qed
qed

lemma split_whitespace_word:
  "\<not> list_ex ascii_whitespace w \<Longrightarrow> split_whitespace w = [w]"
  by (induction w) (simp_all add: Let_def)

lemma split_whitespace_word_space:
  "\<not> list_ex ascii_whitespace w \<Longrightarrow>
   split_whitespace (w @ CHR '' '' # rest) = w # split_whitespace rest"
proof (induction w)
  case Nil
  show ?case by (simp add: Let_def ascii_whitespace_def)
next
  case (Cons c w)
  then show ?case by (simp add: Let_def)
qed

lemma split_whitespace_join:
  assumes "\<forall>w \<in> set ws. w \<noteq> [] \<and> \<not> list_ex ascii_whitespace w"
  shows "filter (\<lambda>w. w \<noteq> []) (split_whitespace (js_join '' '' ws)) = ws"
  using assms
proof (induction "'' ''" ws rule: js_join.induct)
  case 1
  show ?case by simp
next
  case (2 x)
  then show ?case by (simp add: split_whitespace_word)
next
  case (3 x y ys)
  then have "filter (\<lambda>w. w \<noteq> []) (split_whitespace (js_join '' '' (y # ys))) = y # ys"
    by simp
  with "3.prems" show ?case
    by (simp add: split_whitespace_word_space)
qed

lemma strip_and_collapse_idem: "strip_and_collapse (strip_and_collapse s) = strip_and_collapse s"
proof -
  have "\<forall>w \<in> set (filter (\<lambda>w. w \<noteq> []) (split_whitespace s)).
          w \<noteq> [] \<and> \<not> list_ex ascii_whitespace w"
    by (auto simp: split_whitespace_pieces)
  from split_whitespace_join [OF this] show ?thesis
    by (simp add: strip_and_collapse_def)
qed

lemma timer_fires_SetTitle:
  assumes "k < length (timers s)" and "timers s ! k = SetTitle t"
  shows "document_title (documentElement (timer_fires k s)) = strip_and_collapse t"
proof -
  let ?s1 = "s\<lparr>timers := remove_nth k (timers s)\<rparr>"
  have doc: "documentElement ?s1 = documentElement s"
    by (simp add: documentElement_def split: option.split)
  show ?thesis
  proof (cases "document_title (documentElement s) = t")
    case True
    then have "strip_and_collapse t = t"
      by (metis document_title_def strip_and_collapse_idem)
    with True assms doc show ?thesis
      by (simp add: timer_fires_def Let_def)
  next
    case False
    with assms doc show ?thesis
      by (simp add: timer_fires_def Let_def documentElement_update document_title_def)
  qed
qed

lemma pass_not_found:
  assumes "pathname location \<noteq> []" and "startsWith (pathname location) ''/isolated''"
    and "find_info cfg (pathname location) = None"
  shows "handleLocationChange cfg location s =
           (None, update_document (\<lambda>d. d\<lparr>body_innerHTML := SorryNothingHere\<rparr>)
                    (after_classList location s))"
  using assms by (simp add: handleLocationChange_def update_classList_eq)

lemma pass_missing_import:
  assumes "pathname location \<noteq> []" and "startsWith (pathname location) ''/isolated''"
    and "find_info cfg (pathname location) = Some info"
    and "moduleWithDefaultExport (imports_arg cfg) (filePath info) = Inl err"
  shows "handleLocationChange cfg location s = (Some (Thrown err), with_title_timer cfg location s)"
  using assms
  by (simp add: handleLocationChange_def update_classList_eq with_title_timer_def
      after_classList_fields)

lemma pass_isolated:
  assumes "pathname location \<noteq> []" and "startsWith (pathname location) ''/isolated''"
    and "find_info cfg (pathname location) = Some info"
    and "moduleWithDefaultExport (imports_arg cfg) (filePath info) = Inr loader"
  shows "handleLocationChange cfg location s =
           (None, (renderIsolated loader (with_title_timer cfg location s))
                    \<lparr>previousLocation := location, previousIsIsolated := Some True\<rparr>)"
  using assms
  by (simp add: handleLocationChange_def update_classList_eq with_title_timer_def
      after_classList_fields)

lemma pass_shell:
  assumes "pathname location \<noteq> []" and "\<not> startsWith (pathname location) ''/isolated''"
  shows "handleLocationChange cfg location s =
           (None, (if previousIsIsolated s = Some False then with_title_timer cfg location s
                   else renderReact (with_title_timer cfg location s))
                    \<lparr>previousLocation := location, previousIsIsolated := Some False\<rparr>)"
  using assms
  by (simp add: handleLocationChange_def update_classList_eq with_title_timer_def
      after_classList_fields)

lemma with_title_timer_fields:
  "previousLocation (with_title_timer cfg l s) = previousLocation s"
  "previousIsIsolated (with_title_timer cfg l s) = previousIsIsolated s"
  "unmount (with_title_timer cfg l s) = unmount s"
  "timers (with_title_timer cfg l s) =
     timers s @ [SetTitle (title_for (find_info cfg (pathname l)) (projectTitle cfg))]"
  "pending_imports (with_title_timer cfg l s) = pending_imports s"
  "replays (with_title_timer cfg l s) = replays s"
  "effects (with_title_timer cfg l s) = effects s"
  "(replacementDocumentElement (with_title_timer cfg l s) = None) = (replacementDocumentElement s = None)"
  by (simp_all add: with_title_timer_def after_classList_fields)

lemma with_title_timer_document:
  "documentElement (with_title_timer cfg l s) = set_classes (previousLocation s) l (documentElement s)"
proof -
  have "documentElement (with_title_timer cfg l s) = documentElement (after_classList l s)"
    by (simp add: with_title_timer_def documentElement_def split: option.split)
  then show ?thesis by (simp add: after_classList_document)
qed

lemma renderReact_fields:
  "previousLocation (renderReact s) = previousLocation s"
  "previousIsIsolated (renderReact s) = previousIsIsolated s"
  "unmount (renderReact s) = unmount s"
  "timers (renderReact s) = timers s"
  "pending_imports (renderReact s) = pending_imports s"
  "replays (renderReact s) = replays s"
  "effects (renderReact s) = effects s @ [RenderReactApp]"
  "replacementDocumentElement (renderReact s) = None"
  "originalDocumentElement (renderReact s) = originalDocumentElement s"
  by (simp_all add: renderReact_def perform_def)

lemma renderReact_document_original:
  "replacementDocumentElement s = None \<Longrightarrow> documentElement (renderReact s) = documentElement s"
  by (simp add: renderReact_def perform_def documentElement_def)


lemma documentElement_previous_update:
  "documentElement (s\<lparr>previousLocation := l, previousIsIsolated := b\<rparr>) = documentElement s"
  by (simp add: documentElement_def split: option.split)

lemma documentElement_renderIsolated:
  "documentElement (renderIsolated loader s) = documentElement s"
  by (simp add: documentElement_def renderIsolated_def split: option.split)

text \<open>
  Claim C5. For a path that starts with \<open>/isolated\<close> and whose source path is the file
  path of no entry of the manifest, the pass writes the placeholder into the body and
  ends: no timer is added, no module is requested, no renderer is called, and the
  recorded previous location and flag stay as they were.
\<close>

theorem unknown_isolated_path_shows_placeholder:
  assumes iso: "startsWith (pathname location) ''/isolated''"
    and none: "\<forall>info \<in> set (filesInfo cfg). filePath info \<noteq> isolated_filePath (pathname location)"
  shows "\<exists>s'. handleLocationChange cfg location s = (None, s')
           \<and> body_innerHTML (documentElement s') = SorryNothingHere
           \<and> timers s' = timers s
           \<and> pending_imports s' = pending_imports s
           \<and> replays s' = replays s
           \<and> effects s' = effects s
           \<and> unmount s' = unmount s
           \<and> (replacementDocumentElement s' = None) = (replacementDocumentElement s = None)
           \<and> previousLocation s' = previousLocation s
           \<and> previousIsIsolated s' = previousIsIsolated s"
proof -
  from iso have path: "pathname location \<noteq> []"
    by (rule startsWith_nonempty)
  from iso none have "find_info cfg (pathname location) = None"
    by (simp add: find_info_def find_None_iff)
  from pass_not_found [OF path iso this] show ?thesis
    by (simp add: update_document_fields after_classList_fields documentElement_update)
qed

theorem unknown_isolated_path_shows_placeholder_witness:
  "startsWith ''/isolated/nope.js'' ''/isolated''
   \<and> fst (handleLocationChange demo_config \<lparr>ref = 1, pathname = ''/isolated/nope.js''\<rparr> demo_start) = None
   \<and> body_innerHTML (documentElement (snd (handleLocationChange demo_config
         \<lparr>ref = 1, pathname = ''/isolated/nope.js''\<rparr> demo_start))) = SorryNothingHere
   \<and> timers (snd (handleLocationChange demo_config
         \<lparr>ref = 1, pathname = ''/isolated/nope.js''\<rparr> demo_start)) = timers demo_start
   \<and> effects (snd (handleLocationChange demo_config
         \<lparr>ref = 1, pathname = ''/isolated/nope.js''\<rparr> demo_start)) = effects demo_start
   \<and> pending_imports (snd (handleLocationChange demo_config
         \<lparr>ref = 1, pathname = ''/isolated/nope.js''\<rparr> demo_start)) = pending_imports demo_start"
proof -
  have h0: "startsWith ''/isolated/nope.js'' ''/isolated''" by code_simp
  then have h1: "startsWith (pathname \<lparr>ref = 1, pathname = ''/isolated/nope.js''\<rparr>) ''/isolated''"
    by simp
  have h2: "\<forall>info \<in> set (filesInfo demo_config).
              filePath info \<noteq> isolated_filePath (pathname \<lparr>ref = 1, pathname = ''/isolated/nope.js''\<rparr>)"
    by code_simp
  from unknown_isolated_path_shows_placeholder [OF h1 h2, of demo_start] h0
  show ?thesis by auto
qed

lemma display_name_rule:
  "display_name info =
     (case title info of
        None \<Rightarrow> (case filename info of None \<Rightarrow> [] | Some f \<Rightarrow> f)
      | Some ttl \<Rightarrow>
          if ttl = [] then (case filename info of None \<Rightarrow> [] | Some f \<Rightarrow> f) else ttl)"
  by (simp add: display_name_def split: option.split)

lemma timer_fires_assigns:
  assumes "k < length (timers s)" and "timers s ! k = SetTitle t"
    and "document_title (documentElement s) \<noteq> t"
  shows "title_text (documentElement (timer_fires k s)) = t"
proof -
  have "documentElement (s\<lparr>timers := remove_nth k (timers s)\<rparr>) = documentElement s"
    by (simp add: documentElement_def split: option.split)
  with assms show ?thesis
    by (simp add: timer_fires_def Let_def documentElement_update)
qed

text \<open>
  Claim C6, as the code has it. For a path that is not isolated and whose last segment is
  a decimal numeral of \<open>N\<close> (below \<open>2 ^ 53\<close>, where numbers are exact), the pass looks up
  the first instruction with number \<open>N\<close> and adds a timer with a title \<open>t\<close>. When the
  timer fires and \<open>document.title\<close> does not read \<open>t\<close>, it assigns \<open>t\<close>; afterwards
  \<open>document.title\<close> reads \<open>t\<close> with white space stripped and collapsed. The title \<open>t\<close> is
  the project title when there is no such instruction. Otherwise the name is the title
  of the instruction if it is present and not empty, else its filename (nothing if that
  is absent); the label is \<open>N. \<close> and the name, without \<open>N. \<close> when \<open>N = 0\<close>; and \<open>t\<close> is
  the label, \<open> | \<close> and the project title, where an empty label or an empty project
  title is left out together with the separator.
\<close>

theorem instruction_title_scheduled:
  assumes shell: "\<not> startsWith (pathname location) ''/isolated''"
    and seg: "last (js_split CHR ''/'' (pathname location)) = ds"
    and num: "ds \<noteq> []" "list_all is_digit ds" "decimal_value ds = N" "N < 2 ^ 53"
  shows "\<exists>s' t. handleLocationChange cfg location s = (None, s')
           \<and> timers s' = timers s @ [SetTitle t]
           \<and> (document_title (documentElement s') \<noteq> t
                \<longrightarrow> title_text (documentElement (timer_fires (length (timers s)) s')) = t)
           \<and> document_title (documentElement (timer_fires (length (timers s)) s'))
                = strip_and_collapse t
           \<and> t = (case List.find (\<lambda>i. type i = ''instruction'' \<and> number i = Some N) (filesInfo cfg) of
                    None \<Rightarrow> projectTitle cfg
                  | Some info \<Rightarrow>
                      (let name = (case title info of
                                     None \<Rightarrow> (case filename info of None \<Rightarrow> [] | Some f \<Rightarrow> f)
                                   | Some ttl \<Rightarrow>
                                       if ttl = []
                                       then (case filename info of None \<Rightarrow> [] | Some f \<Rightarrow> f)
                                       else ttl);
                           label = (if N = 0 then [] else string_of_nat N @ ''. '') @ name
                       in if label = [] then projectTitle cfg
                          else if projectTitle cfg = [] then label
                          else label @ '' | '' @ projectTitle cfg))"
proof -
  let ?found = "List.find (\<lambda>i. type i = ''instruction'' \<and> number i = Some N) (filesInfo cfg)"
  let ?t = "title_for ?found (projectTitle cfg)"
  from seg num(1) have path: "pathname location \<noteq> []"
    by (cases "pathname location") auto
  from seg num have info: "find_info cfg (pathname location) = ?found"
    using shell by (simp add: find_info_def trailing_number_def Number_js_digits is_instruction_Num)
  define s' where "s' = snd (handleLocationChange cfg location s)"
  have run: "handleLocationChange cfg location s = (None, s')"
    by (simp add: s'_def pass_shell [OF path shell])
  have tm: "timers s' = timers s @ [SetTitle ?t]"
    by (simp add: s'_def pass_shell [OF path shell] with_title_timer_fields renderReact_fields info)
  from tm have fired:
    "document_title (documentElement (timer_fires (length (timers s)) s')) = strip_and_collapse ?t"
    by (intro timer_fires_SetTitle) simp_all
  from tm have assigned:
    "document_title (documentElement s') \<noteq> ?t
       \<longrightarrow> title_text (documentElement (timer_fires (length (timers s)) s')) = ?t"
    by (auto intro!: timer_fires_assigns)
  have "?t = (case ?found of
                None \<Rightarrow> projectTitle cfg
              | Some info \<Rightarrow>
                  (let name = (case title info of
                                 None \<Rightarrow> (case filename info of None \<Rightarrow> [] | Some f \<Rightarrow> f)
                               | Some ttl \<Rightarrow>
                                   if ttl = []
                                   then (case filename info of None \<Rightarrow> [] | Some f \<Rightarrow> f)
                                   else ttl);
                       label = (if N = 0 then [] else string_of_nat N @ ''. '') @ name
                   in if label = [] then projectTitle cfg
                      else if projectTitle cfg = [] then label
                      else label @ '' | '' @ projectTitle cfg))"
  proof (cases ?found)
    case None
    then show ?thesis by (simp add: title_for_None)
  next
    case (Some info)
    then have "number info = Some N"
      by (auto simp: find_Some_iff)
    then have "info_label info = (if N = 0 then [] else string_of_nat N @ ''. '') @ display_name info"
      by (simp add: info_label_def number_prefix_def)
    with Some show ?thesis
      by (simp only: title_for_Some Let_def display_name_rule option.case)
  qed
  with run tm fired assigned show ?thesis by blast
qed

theorem instruction_title_scheduled_witness:
  "\<not> startsWith ''/3'' ''/isolated''
   \<and> last (js_split CHR ''/'' ''/3'') = ''3''
   \<and> decimal_value ''3'' = 3
   \<and> fst (handleLocationChange demo_config \<lparr>ref = 1, pathname = ''/3''\<rparr> demo_start) = None
   \<and> timers (snd (handleLocationChange demo_config \<lparr>ref = 1, pathname = ''/3''\<rparr> demo_start))
        = timers demo_start @ [SetTitle ''3. Hooks | P'']
   \<and> document_title (documentElement (timer_fires (length (timers demo_start))
          (snd (handleLocationChange demo_config \<lparr>ref = 1, pathname = ''/3''\<rparr> demo_start))))
        = ''3. Hooks | P''
   \<and> title file_4 = None
   \<and> filename file_4 = Some ''04.md''
   \<and> timers (snd (handleLocationChange named_config \<lparr>ref = 1, pathname = ''/4''\<rparr> demo_start))
        = timers demo_start @ [SetTitle ''4. 04.md | P'']"
proof -
  have h0: "\<not> startsWith ''/3'' ''/isolated''" "last (js_split CHR ''/'' ''/3'') = ''3''"
    "decimal_value ''3'' = 3"
    by code_simp+
  have h1: "\<not> startsWith (pathname \<lparr>ref = 1, pathname = ''/3''\<rparr>) ''/isolated''"
    and h2: "last (js_split CHR ''/'' (pathname \<lparr>ref = 1, pathname = ''/3''\<rparr>)) = ''3''"
    using h0 by simp_all
  have h3: "''3'' \<noteq> []" by simp
  have h4: "list_all is_digit ''3''" by code_simp
  have h5: "(3::nat) < 2 ^ 53" by simp
  have f3: "List.find (\<lambda>i. type i = ''instruction'' \<and> number i = Some 3) (filesInfo demo_config)
              = Some file_3"
    by code_simp
  have v3: "title file_3 = Some ''Hooks''" "string_of_nat 3 = ''3''" "projectTitle demo_config = ''P''"
    "strip_and_collapse ''3. Hooks | P'' = ''3. Hooks | P''"
    by code_simp+
  from instruction_title_scheduled [OF h1 h2 h3 h4 h0(3) h5, of demo_config demo_start]
  obtain s' t where three:
    "handleLocationChange demo_config \<lparr>ref = 1, pathname = ''/3''\<rparr> demo_start = (None, s')"
    "timers s' = timers demo_start @ [SetTitle t]"
    "document_title (documentElement (timer_fires (length (timers demo_start)) s'))
       = strip_and_collapse t"
    "t = ''3. Hooks | P''"
    by (auto simp: f3 v3)
  have g0: "\<not> startsWith ''/4'' ''/isolated''" "last (js_split CHR ''/'' ''/4'') = ''4''"
    "decimal_value ''4'' = 4"
    by code_simp+
  have g1: "\<not> startsWith (pathname \<lparr>ref = 1, pathname = ''/4''\<rparr>) ''/isolated''"
    and g2: "last (js_split CHR ''/'' (pathname \<lparr>ref = 1, pathname = ''/4''\<rparr>)) = ''4''"
    using g0 by simp_all
  have g3: "''4'' \<noteq> []" by simp
  have g4: "list_all is_digit ''4''" by code_simp
  have g5: "(4::nat) < 2 ^ 53" by simp
  have f4: "List.find (\<lambda>i. type i = ''instruction'' \<and> number i = Some 4) (filesInfo named_config)
              = Some file_4"
    by code_simp
  have v4: "title file_4 = None" "filename file_4 = Some ''04.md''" "string_of_nat 4 = ''4''"
    "projectTitle named_config = ''P''"
    by code_simp+
  from instruction_title_scheduled [OF g1 g2 g3 g4 g0(3) g5, of named_config demo_start]
  obtain s'' t' where four:
    "handleLocationChange named_config \<lparr>ref = 1, pathname = ''/4''\<rparr> demo_start = (None, s'')"
    "timers s'' = timers demo_start @ [SetTitle t']"
    "t' = ''4. 04.md | P''"
    by (auto simp: f4 v4)
  from three four h0 v3 v4 show ?thesis by simp
qed

text \<open>
  Claim C6 as stated gives the title \<open>N. name | projectTitle\<close> in all cases. With an
  empty project title the title of \<open>/3\<close> is \<open>3. Hooks\<close>, without separator; and for
  the instruction numbered \<open>0\<close> the title of \<open>/0\<close> is \<open>Intro | P\<close>, without \<open>0. \<close>.
\<close>

theorem empty_title_parts_counterexample:
  "find_info untitled_config ''/3'' = Some file_3
   \<and> projectTitle untitled_config = []
   \<and> timers (snd (handleLocationChange untitled_config \<lparr>ref = 1, pathname = ''/3''\<rparr> demo_start))
        = timers demo_start @ [SetTitle ''3. Hooks'']
   \<and> find_info zero_config ''/0'' = Some file_0
   \<and> projectTitle zero_config = ''P''
   \<and> timers (snd (handleLocationChange zero_config \<lparr>ref = 1, pathname = ''/0''\<rparr> demo_start))
        = timers demo_start @ [SetTitle ''Intro | P'']"
  by code_simp

section \<open>Late module promises\<close>

text \<open>
  The callback of the isolated renderer does nothing when \<open>history.location\<close> is not the
  recorded previous location. But a pass that runs to its end records its own location,
  so after the next navigation the two are the same object again, and a module that
  arrives then is rendered. Only a pass that ends at the placeholder leaves the recorded
  location behind.
\<close>

lemma stale_guard_returns_early:
  "\<not> same_object (history_location s) (previousLocation s) \<Longrightarrow> renderIsolated_then cfg m s = s"
  by (simp add: renderIsolated_then_def)

lemma completed_pass_records_location:
  assumes "pathname location \<noteq> []"
    and "\<not> (startsWith (pathname location) ''/isolated'' \<and> find_info cfg (pathname location) = None)"
    and "handleLocationChange cfg location s = (None, s')"
  shows "previousLocation s' = location"
proof (cases "startsWith (pathname location) ''/isolated''")
  case False
  from pass_shell [OF assms(1) False, of cfg s] assms(3) show ?thesis by auto
next
  case True
  with assms(2) obtain info where info: "find_info cfg (pathname location) = Some info"
    by auto
  show ?thesis
  proof (cases "moduleWithDefaultExport (imports_arg cfg) (filePath info)")
    case (Inl err)
    from pass_missing_import [OF assms(1) True info Inl, of s] assms(3) show ?thesis by simp
  next
    case (Inr loader)
    from pass_isolated [OF assms(1) True info Inr, of s] assms(3) show ?thesis by auto
  qed
qed

lemma pass_keeps_history_location:
  assumes "pathname location \<noteq> []"
  shows "history_location (snd (handleLocationChange cfg location s)) = history_location s"
proof (cases "startsWith (pathname location) ''/isolated''")
  case False
  show ?thesis
    by (simp add: pass_shell [OF assms False] with_title_timer_def after_classList_fields
        renderReact_def perform_def)
next
  case True
  show ?thesis
  proof (cases "find_info cfg (pathname location)")
    case None
    show ?thesis
      by (simp add: pass_not_found [OF assms True None] update_document_fields
          after_classList_fields)
  next
    case (Some info)
    show ?thesis
    proof (cases "moduleWithDefaultExport (imports_arg cfg) (filePath info)")
      case (Inl err)
      show ?thesis
        by (simp add: pass_missing_import [OF assms True Some Inl] with_title_timer_def
            after_classList_fields)
    next
      case (Inr loader)
      show ?thesis
        by (simp add: pass_isolated [OF assms True Some Inr] with_title_timer_def
            after_classList_fields renderIsolated_def)
    qed
  qed
qed

lemma navigation_opens_guard:
  assumes "pathname location \<noteq> []"
    and "\<not> (startsWith (pathname location) ''/isolated'' \<and> find_info cfg (pathname location) = None)"
    and "handleLocationChange cfg location (s\<lparr>history_location := location\<rparr>) = (None, s')"
  shows "same_object (history_location s') (previousLocation s')"
proof -
  from completed_pass_records_location [OF assms] have "previousLocation s' = location" .
  moreover from pass_keeps_history_location [OF assms(1), of cfg "s\<lparr>history_location := location\<rparr>"]
    assms(3)
  have "history_location s' = location" by simp
  ultimately show ?thesis by (simp add: same_object_def)
qed

lemma late_module_is_rendered:
  assumes "same_object (history_location s) (previousLocation s)"
    and "default_export m = Some (Fn c)" and "c \<noteq> DO_NOT_RENDER"
    and "root_present (body_innerHTML (documentElement s))"
  shows "effects (renderIsolated_then cfg m s) =
           effects s @ (case unmount s of None \<Rightarrow> [] | Some mounted \<Rightarrow> [RootUnmount mounted])
             @ [RootRender c]"
  using assms
  by (simp add: renderIsolated_then_def render_def perform_def Let_def split: option.split)

text \<open>
  Claim C1 says that the render of a first isolated navigation is never applied when a
  second navigation occurs before its module promise resolves. In this run the
  application starts at \<open>/\<close>, goes to \<open>/isolated/a.js\<close> and then to \<open>/isolated/b.js\<close>,
  and only then the module of \<open>a.js\<close> arrives: its component is rendered into the root
  while the location is \<open>/isolated/b.js\<close>.
\<close>

theorem stale_isolated_render_is_applied:
  "effects (run demo_config demo_start
      [Navigate \<lparr>ref = 1, pathname = ''/isolated/a.js''\<rparr>,
       Navigate \<lparr>ref = 2, pathname = ''/isolated/b.js''\<rparr>,
       ModuleSettles 0])
     = [RenderReactApp, RootRender (Component ''A'')]
   \<and> pathname (history_location (run demo_config demo_start
      [Navigate \<lparr>ref = 1, pathname = ''/isolated/a.js''\<rparr>,
       Navigate \<lparr>ref = 2, pathname = ''/isolated/b.js''\<rparr>,
       ModuleSettles 0])) = ''/isolated/b.js''"
  by code_simp

lemma t1: "trace (foldl (\<lambda>r j. load_event j r) (replay_start False demo_scripts) [0])
   = [Replaced 0 (demo_scripts ! 0), LoadFired 0, Replaced 1 (demo_scripts ! 1), AllLoaded]"
  by code_simp

lemma t2: "trace (replay_start False demo_scripts) = [Replaced 0 (demo_scripts ! 0)]"
  by code_simp

section \<open>The class of the body across navigations\<close>

text \<open>
  One pass takes the class of the recorded previous location off the live body and puts
  the class of the new location on it; this is what remains of it unless the pass puts
  the original document element back.
\<close>

lemma pass_moves_class:
  assumes path: "pathname location \<noteq> []"
    and differ: "escapeForClassList (pathname (previousLocation s)) \<noteq> escapeForClassList (pathname location)"
    and stay: "replacementDocumentElement s = None \<or> startsWith (pathname location) ''/isolated''
               \<or> previousIsIsolated s = Some False"
    and pass: "handleLocationChange cfg location s = (ex, s')"
  shows "escapeForClassList (pathname location) \<in> set (body_classList (documentElement s'))
       \<and> escapeForClassList (pathname (previousLocation s)) \<notin> set (body_classList (documentElement s'))"
proof -
  let ?cl = "next_classList (escapeForClassList (pathname (previousLocation s)))
               (escapeForClassList (pathname location)) (body_classList (documentElement s))"
  have timer_cl: "body_classList (documentElement (with_title_timer cfg location s)) = ?cl"
    by (simp add: with_title_timer_document set_classes_def)
  have "body_classList (documentElement s') = ?cl"
  proof (cases "startsWith (pathname location) ''/isolated''")
    case iso: True
    show ?thesis
    proof (cases "find_info cfg (pathname location)")
      case None
      from pass_not_found [OF path iso None, of s] pass show ?thesis
        by (simp add: documentElement_update after_classList_document set_classes_def)
    next
      case (Some info)
      show ?thesis
      proof (cases "moduleWithDefaultExport (imports_arg cfg) (filePath info)")
        case (Inl err)
        from pass_missing_import [OF path iso Some Inl, of s] pass timer_cl show ?thesis
          by simp
      next
        case (Inr loader)
        from pass_isolated [OF path iso Some Inr, of s] pass timer_cl show ?thesis
          by (auto simp: documentElement_previous_update documentElement_renderIsolated)
      qed
    qed
  next
    case shell: False
    from shell stay have "replacementDocumentElement s = None \<or> previousIsIsolated s = Some False"
      by simp
    then have "documentElement (if previousIsIsolated s = Some False then with_title_timer cfg location s
                   else renderReact (with_title_timer cfg location s))
               = documentElement (with_title_timer cfg location s)"
      by (auto simp: renderReact_document_original with_title_timer_fields)
    with pass_shell [OF path shell, of cfg s] pass timer_cl show ?thesis
      by (auto simp: documentElement_previous_update)
  qed
  with differ show ?thesis
    by (simp add: next_classList_new next_classList_prev)
qed

text \<open>
  So two passes in a row, the first one run to its end, the second one without a change
  of document element, move the class from the first path to the second.
\<close>

lemma consecutive_passes_move_class:
  assumes first: "handleLocationChange cfg previous s0 = (None, s1)"
    and first_path: "pathname previous \<noteq> []"
    and first_end: "\<not> (startsWith (pathname previous) ''/isolated''
                      \<and> find_info cfg (pathname previous) = None)"
    and path: "pathname location \<noteq> []"
    and differ: "escapeForClassList (pathname previous) \<noteq> escapeForClassList (pathname location)"
    and stay: "replacementDocumentElement s1 = None \<or> startsWith (pathname location) ''/isolated''
               \<or> previousIsIsolated s1 = Some False"
    and pass: "handleLocationChange cfg location s1 = (ex, s2)"
  shows "escapeForClassList (pathname location) \<in> set (body_classList (documentElement s2))
       \<and> escapeForClassList (pathname previous) \<notin> set (body_classList (documentElement s2))"
proof -
  from completed_pass_records_location [OF first_path first_end first]
  have "previousLocation s1 = previous" .
  with pass_moves_class [OF path _ stay pass] differ show ?thesis by simp
qed

text \<open>
  Claim C7 says that after a navigation from a path \<open>A\<close> to a different path \<open>B\<close> the
  class list of the body has the escaped class of \<open>B\<close> and not that of \<open>A\<close>. The code
  breaks it in two runs whose paths have different escaped classes. From \<open>/\<close> to
  \<open>/isolated/nope.js\<close>, which is not in the manifest, to \<open>/3\<close>: the pass that ends at the
  placeholder does not record its location, so the next pass looks for the class of
  \<open>/\<close>, and the class of \<open>/isolated/nope.js\<close> stays on the body. From \<open>/\<close> to
  \<open>/isolated/page.html\<close>, whose markup replaces the document, to \<open>/3\<close>: the pass puts the
  class of \<open>/3\<close> on the body of the isolated document and then restores the original
  document element, whose body still has the class of \<open>/isolated/page.html\<close> and never
  gets that of \<open>/3\<close>.
\<close>

theorem body_class_is_left_behind:
  "escapeForClassList ''/isolated/nope.js'' = ''_isolated_nope.js''
   \<and> escapeForClassList ''/isolated/page.html'' = ''_isolated_page.html''
   \<and> escapeForClassList ''/3'' = ''_3''
   \<and> body_classList (documentElement (run demo_config demo_start
         [Navigate \<lparr>ref = 1, pathname = ''/isolated/nope.js''\<rparr>,
          Navigate \<lparr>ref = 2, pathname = ''/3''\<rparr>]))
        = [''_isolated_nope.js'', ''_3'']
   \<and> body_classList (documentElement (run page_config page_start
         [Navigate \<lparr>ref = 1, pathname = ''/isolated/page.html''\<rparr>,
          ModuleSettles 0,
          Navigate \<lparr>ref = 2, pathname = ''/3''\<rparr>]))
        = [''_isolated_page.html'']"
  by code_simp

section \<open>Which renderer a pass calls\<close>











end
